theory Spec2Isabelle
  imports Main "HOL-Library.Sublist"
begin

section \<open>The asset loader of django-vite: data model\<close>

text \<open>
  A shallow embedding of \<^verbatim>\<open>django_vite/core/asset_loader.py\<close>. Python exceptions are
  values of the type \<open>error\<close>, a function that may raise returns \<open>error + 'a\<close>
  (\<open>Inl\<close> the exception). Everything the module reaches outside itself (the network,
  the file system, \<^verbatim>\<open>json.loads\<close>, \<^verbatim>\<open>urljoin\<close>, \<^verbatim>\<open>pathlib\<close>, the Django settings
  \<^verbatim>\<open>STATIC_ROOT\<close> and the staticfiles storage, and the tag generator of
  \<^verbatim>\<open>django_vite.core.tag_generator\<close>) is a field of the record \<open>world\<close>, passed to
  every operation that uses it. A call into the outside world can fail in the model
  where the source itself deals with the failure (\<^verbatim>\<open>open\<close>, \<^verbatim>\<open>requests.get\<close>, reading,
  \<^verbatim>\<open>json.loads\<close>, the request of the probe); the other library calls are taken to
  return. Output of \<^verbatim>\<open>print_debug\<close> is not modelled.
\<close>

subsection \<open>Exceptions\<close>

text \<open>
  What can go wrong inside the \<^verbatim>\<open>try\<close> block of \<^verbatim>\<open>_parse_manifest\<close>: neither
  \<^verbatim>\<open>open\<close> nor the fallback \<^verbatim>\<open>requests.get\<close> delivers a file, reading the opened file
  fails, \<^verbatim>\<open>json.loads\<close> rejects the text, \<^verbatim>\<open>.items()\<close> is called on a value that is not
  an object (\<^verbatim>\<open>AttributeError\<close>), or \<^verbatim>\<open>ManifestEntry(**data)\<close> misses its required
  argument \<^verbatim>\<open>file\<close> or is given an argument it does not know (\<^verbatim>\<open>TypeError\<close>, twice).
\<close>

datatype parse_failure =
    OpenFailed
  | ReadFailed
  | JSONDecodeError
  | AttributeError
  | MissingFileArgument
  | UnexpectedArgument

datatype error =
    DjangoViteManifestError string parse_failure
  | DjangoViteAssetNotFoundError string
  | DjangoViteConfigNotFoundError string
  | TypeError
  | RecursionError
  | RequestError

type_synonym 'a result = "error + 'a"

subsection \<open>Strings\<close>

text \<open>\<^verbatim>\<open>s.endswith("/")\<close> and \<^verbatim>\<open>s.startswith(p)\<close>.\<close>

definition endswith_slash :: "string \<Rightarrow> bool" where
  "endswith_slash s = (s \<noteq> [] \<and> last s = CHR ''/'')"

definition startswith :: "string \<Rightarrow> string \<Rightarrow> bool" where
  "startswith s p = prefix p s"

text \<open>Python's \<^verbatim>\<open>motif in path\<close> on strings: \<open>motif\<close> occurs in \<open>path\<close> as a contiguous run.\<close>

fun str_contains :: "string \<Rightarrow> string \<Rightarrow> bool" where
  "str_contains motif [] = (motif = [])"
| "str_contains motif (c # cs) = (prefix motif (c # cs) \<or> str_contains motif cs)"

text \<open>\<^verbatim>\<open>str(n)\<close> for an integer, as the f-strings format the port.\<close>

definition digit_char :: "nat \<Rightarrow> char" where
  "digit_char d = ''0123456789'' ! (d mod 10)"

function str_nat :: "nat \<Rightarrow> string" where
  "str_nat n = (if n < 10 then [digit_char n] else str_nat (n div 10) @ [digit_char n])"
  by pat_completeness auto
termination
  by (relation "measure id") auto

declare str_nat.simps [simp del]

definition str_int :: "int \<Rightarrow> string" where
  "str_int i = (if i < 0 then CHR ''-'' # str_nat (nat (- i)) else str_nat (nat i))"

text \<open>\<^verbatim>\<open>"\n".join(tags)\<close>.\<close>

fun join_lines :: "string list \<Rightarrow> string" where
  "join_lines [] = []"
| "join_lines [t] = t"
| "join_lines (t # u # ts) = t @ [CHR 0x0A] @ join_lines (u # ts)"

subsection \<open>Attribute dictionaries\<close>

text \<open>
  A Python \<^verbatim>\<open>dict\<close> of tag attributes, in insertion order. \<^verbatim>\<open>{**base, **kwargs}\<close>
  keeps the position of a key that is already there and replaces its value, and appends
  a new key.
\<close>

type_synonym attrs = "(string \<times> string) list"

fun dict_set :: "attrs \<Rightarrow> string \<Rightarrow> string \<Rightarrow> attrs" where
  "dict_set [] k v = [(k, v)]"
| "dict_set ((k', v') # d) k v = (if k' = k then (k, v) # d else (k', v') # dict_set d k v)"

fun dict_merge :: "attrs \<Rightarrow> attrs \<Rightarrow> attrs" where
  "dict_merge base [] = base"
| "dict_merge base ((k, v) # kwargs) = dict_merge (dict_set base k v) kwargs"

subsection \<open>DjangoViteConfig\<close>

text \<open>
  \<^verbatim>\<open>manifest_path: Optional[Union[Path, str]]\<close>: a \<^verbatim>\<open>Path\<close> object or a plain string,
  each carried as its text.
\<close>

datatype location = PathLoc string | StrLoc string

fun location_str :: "location \<Rightarrow> string" where
  "location_str (PathLoc s) = s"
| "location_str (StrLoc s) = s"

record DjangoViteConfig =
  dev_mode :: bool
  dev_server_protocol :: string
  dev_server_host :: string
  dev_server_port :: int
  static_url_prefix :: string
  manifest_path :: "location option"
  legacy_polyfills_motif :: string
  ws_client_url :: string
  react_refresh_url :: string

text \<open>The defaults of the \<^verbatim>\<open>NamedTuple\<close>: \<^verbatim>\<open>DjangoViteConfig()\<close>.\<close>

definition DjangoViteConfig_default :: DjangoViteConfig where
  "DjangoViteConfig_default =
     \<lparr> dev_mode = False,
       dev_server_protocol = ''http'',
       dev_server_host = ''localhost'',
       dev_server_port = 5173,
       static_url_prefix = '''',
       manifest_path = None,
       legacy_polyfills_motif = ''legacy-polyfills'',
       ws_client_url = ''@vite/client'',
       react_refresh_url = ''@react-refresh'' \<rparr>"

subsection \<open>ManifestEntry\<close>

text \<open>
  One row of the manifest, at the types the \<^verbatim>\<open>NamedTuple\<close> declares. The list fields
  are lists of strings (JSON \<^verbatim>\<open>null\<close> for a list field is outside the manifest format).
  The fields \<^verbatim>\<open>file\<close> and \<^verbatim>\<open>imports\<close> are \<open>entry_file\<close> and \<open>entry_imports\<close> here,
  both words being reserved in a theory.
\<close>

record ManifestEntry =
  entry_file :: string
  src :: "string option"
  isEntry :: bool
  isDynamicEntry :: bool
  css :: "string list"
  entry_imports :: "string list"
  dynamicImports :: "string list"

subsection \<open>The decoded manifest document\<close>

text \<open>
  A JSON object of a manifest row before \<^verbatim>\<open>ManifestEntry\<close> is built from it: each field
  of the schema present or absent, and the names of the fields outside the schema.
\<close>

record manifest_row =
  row_file :: "string option"
  row_src :: "string option"
  row_isEntry :: "bool option"
  row_isDynamicEntry :: "bool option"
  row_css :: "string list option"
  row_imports :: "string list option"
  row_dynamicImports :: "string list option"
  row_other_fields :: "string list"

text \<open>
  What \<^verbatim>\<open>json.loads\<close> returns, as far as the parser looks at it: the top level is an
  object (its items in key order, as the \<^verbatim>\<open>dict\<close> iterates) or something else, and
  each value is an object or something else.
\<close>

datatype row_json = RowObject manifest_row | RowOther

datatype manifest_json = DocObject "(string \<times> row_json) list" | DocOther

subsection \<open>The outside world\<close>

text \<open>The outcome of \<^verbatim>\<open>session.get(url)\<close> in the probe.\<close>

datatype probe_outcome =
    Response int
  | MaxRetryError
  | ConnectionError
  | OtherRequestError

text \<open>
  \<open>fs_open\<close>: \<^verbatim>\<open>open(path, "r")\<close> fails (\<open>None\<close>) or gives a file whose \<^verbatim>\<open>read()\<close> fails
  (\<open>Some None\<close>) or gives its text. \<open>requests_get\<close>: the fallback \<^verbatim>\<open>requests.get\<close>
  with \<^verbatim>\<open>raise_for_status\<close>. \<open>Path_new s\<close> is the text of \<^verbatim>\<open>Path(s)\<close>, \<open>Path_div a b\<close> of
  \<^verbatim>\<open>Path(a) / b\<close>. \<open>STATIC_ROOT\<close> is the Django setting, \<open>None\<close> as long as the project
  does not set it (Django's default).
\<close>

record world =
  session_get :: "string \<Rightarrow> probe_outcome"
  fs_open :: "location \<Rightarrow> string option option"
  requests_get :: "location \<Rightarrow> string option"
  json_loads :: "string \<Rightarrow> manifest_json option"
  STATIC_ROOT :: "string option"
  Path_new :: "string \<Rightarrow> string"
  Path_div :: "string \<Rightarrow> string \<Rightarrow> string"
  urljoin :: "string \<Rightarrow> string \<Rightarrow> string"
  staticfiles_installed :: bool
  staticfiles_storage_url :: "string \<Rightarrow> string"
  tag_script :: "string \<Rightarrow> attrs \<Rightarrow> string"
  tag_stylesheet :: "string \<Rightarrow> string"
  tag_stylesheet_preload :: "string \<Rightarrow> string"
  tag_preload :: "string \<Rightarrow> attrs \<Rightarrow> string"

section \<open>The dev-server probe\<close>

text \<open>The URL the probe requests: \<^verbatim>\<open>f"http://{config.dev_server_host}:{config.dev_server_port}/"\<close>.\<close>

definition vite_webserver_url :: "DjangoViteConfig \<Rightarrow> string" where
  "vite_webserver_url config =
     ''http://'' @ dev_server_host config @ '':'' @ str_int (dev_server_port config) @ ''/''"

text \<open>
  \<^verbatim>\<open>vite_is_serving\<close>: the two exceptions it catches give \<^verbatim>\<open>False\<close>, any other exception
  of the request propagates.
\<close>

definition vite_is_serving :: "world \<Rightarrow> DjangoViteConfig \<Rightarrow> bool result" where
  "vite_is_serving w config =
     (if dev_mode config then
        (case session_get w (vite_webserver_url config) of
           Response status_code \<Rightarrow> Inr (status_code = 404)
         | MaxRetryError \<Rightarrow> Inr False
         | ConnectionError \<Rightarrow> Inr False
         | OtherRequestError \<Rightarrow> Inl RequestError)
      else Inr False)"

section \<open>ManifestClient\<close>

text \<open>
  The object's attributes. \<open>client_dev_mode\<close>, \<open>client_manifest_path\<close> and
  \<open>client_legacy_polyfills_motif\<close> are \<^verbatim>\<open>self.dev_mode\<close>, \<^verbatim>\<open>self.manifest_path\<close> and
  \<^verbatim>\<open>self.legacy_polyfills_motif\<close>; \<open>entries\<close> is the dictionary \<^verbatim>\<open>self._entries\<close>.
\<close>

type_synonym manifest_table = "string \<rightharpoonup> ManifestEntry"

record ManifestClient =
  manifest_config :: DjangoViteConfig
  app_name :: string
  client_dev_mode :: bool
  client_manifest_path :: location
  client_legacy_polyfills_motif :: string
  entries :: manifest_table
  legacy_polyfills_entry :: "ManifestEntry option"

text \<open>
  \<^verbatim>\<open>_clean_manifest_path\<close>. \<^verbatim>\<open>not initial_manifest_path\<close> holds for \<^verbatim>\<open>None\<close> and for the
  empty string; a \<^verbatim>\<open>Path\<close> object is never false. In that branch the location is built
  from \<^verbatim>\<open>Path(settings.STATIC_ROOT)\<close>, which raises \<^verbatim>\<open>TypeError\<close> when the setting is
  \<^verbatim>\<open>None\<close>.
\<close>

definition clean_manifest_path :: "world \<Rightarrow> DjangoViteConfig \<Rightarrow> location result" where
  "clean_manifest_path w config =
     (let default_location =
            (case STATIC_ROOT w of
               None \<Rightarrow> Inl TypeError
             | Some root \<Rightarrow>
                 Inr (PathLoc (Path_div w (Path_div w (Path_new w root) (static_url_prefix config))
                                 ''manifest.json'')))
      in case manifest_path config of
           None \<Rightarrow> default_location
         | Some (PathLoc p) \<Rightarrow> Inr (PathLoc p)
         | Some (StrLoc s) \<Rightarrow>
             (if s = [] then default_location
              else if \<not> startswith s ''http'' then Inr (PathLoc (Path_new w s))
              else Inr (StrLoc s)))"

text \<open>
  \<^verbatim>\<open>open_manifest\<close>: the local file if \<^verbatim>\<open>open\<close> succeeds, otherwise the text fetched from
  the same location. The result is the file object: \<open>Some text\<close> when reading it gives
  \<open>text\<close>, \<open>None\<close> when reading it fails.
\<close>

definition open_manifest :: "world \<Rightarrow> location \<Rightarrow> parse_failure + string option" where
  "open_manifest w path_to_manifest =
     (case fs_open w path_to_manifest of
        Some manifest_file \<Rightarrow> Inr manifest_file
      | None \<Rightarrow>
          (case requests_get w path_to_manifest of
             None \<Rightarrow> Inl OpenFailed
           | Some text \<Rightarrow> Inr (Some text)))"

text \<open>The dictionary comprehension that keeps the keys in \<^verbatim>\<open>ManifestEntry._fields\<close>.\<close>

definition filtered_manifest_entry_data :: "manifest_row \<Rightarrow> manifest_row" where
  "filtered_manifest_entry_data manifest_entry_data =
     manifest_entry_data \<lparr> row_other_fields := [] \<rparr>"

text \<open>\<^verbatim>\<open>ManifestEntry(**data)\<close>, with the defaults of the fields that are absent.\<close>

definition ManifestEntry_new :: "manifest_row \<Rightarrow> parse_failure + ManifestEntry" where
  "ManifestEntry_new d =
     (if row_other_fields d \<noteq> [] then Inl UnexpectedArgument
      else case row_file d of
        None \<Rightarrow> Inl MissingFileArgument
      | Some f \<Rightarrow>
          Inr \<lparr> entry_file = f,
                src = row_src d,
                isEntry = (case row_isEntry d of None \<Rightarrow> False | Some b \<Rightarrow> b),
                isDynamicEntry = (case row_isDynamicEntry d of None \<Rightarrow> False | Some b \<Rightarrow> b),
                css = (case row_css d of None \<Rightarrow> [] | Some l \<Rightarrow> l),
                entry_imports = (case row_imports d of None \<Rightarrow> [] | Some l \<Rightarrow> l),
                dynamicImports = (case row_dynamicImports d of None \<Rightarrow> [] | Some l \<Rightarrow> l) \<rparr>)"

text \<open>
  The loop over \<^verbatim>\<open>manifest_json.items()\<close>, from the table and the polyfills entry built
  so far.
\<close>

fun parse_rows ::
  "string \<Rightarrow> (string \<times> row_json) list \<Rightarrow> manifest_table \<times> ManifestEntry option \<Rightarrow>
   parse_failure + manifest_table \<times> ManifestEntry option" where
  "parse_rows motif [] acc = Inr acc"
| "parse_rows motif ((path, RowOther) # rest) acc = Inl AttributeError"
| "parse_rows motif ((path, RowObject manifest_entry_data) # rest) (es, lpe) =
     (case ManifestEntry_new (filtered_manifest_entry_data manifest_entry_data) of
        Inl failure \<Rightarrow> Inl failure
      | Inr manifest_entry \<Rightarrow>
          parse_rows motif rest
            (es(path \<mapsto> manifest_entry),
             if str_contains motif path then Some manifest_entry else lpe))"

text \<open>
  The body of the \<^verbatim>\<open>try\<close> block of \<^verbatim>\<open>_parse_manifest\<close>, in two parts: up to
  \<^verbatim>\<open>json.loads\<close>, and the loop over the items of the document.
\<close>

definition load_manifest_json :: "world \<Rightarrow> location \<Rightarrow> parse_failure + manifest_json" where
  "load_manifest_json w path_to_manifest =
     (case open_manifest w path_to_manifest of
        Inl failure \<Rightarrow> Inl failure
      | Inr None \<Rightarrow> Inl ReadFailed
      | Inr (Some manifest_content) \<Rightarrow>
          (case json_loads w manifest_content of
             None \<Rightarrow> Inl JSONDecodeError
           | Some manifest_json \<Rightarrow> Inr manifest_json))"

definition read_manifest ::
  "world \<Rightarrow> ManifestClient \<Rightarrow> parse_failure + manifest_table \<times> ManifestEntry option" where
  "read_manifest w self =
     (case load_manifest_json w (client_manifest_path self) of
        Inl failure \<Rightarrow> Inl failure
      | Inr DocOther \<Rightarrow> Inl AttributeError
      | Inr (DocObject items) \<Rightarrow>
          parse_rows (client_legacy_polyfills_motif self) items (Map.empty, None))"

text \<open>
  The message of the \<^verbatim>\<open>DjangoViteManifestError\<close> up to \<^verbatim>\<open>str(error)\<close>; the cause is
  the second argument of the exception.
\<close>

definition manifest_error_message :: "ManifestClient \<Rightarrow> string" where
  "manifest_error_message self =
     ''Cannot read Vite manifest file for app '' @ app_name self @ '' at '' @
     location_str (client_manifest_path self) @ '' : ''"

definition parse_manifest ::
  "world \<Rightarrow> ManifestClient \<Rightarrow> (manifest_table \<times> ManifestEntry option) result" where
  "parse_manifest w self =
     (if client_dev_mode self then Inr (Map.empty, None)
      else case read_manifest w self of
        Inl failure \<Rightarrow> Inl (DjangoViteManifestError (manifest_error_message self) failure)
      | Inr parsed \<Rightarrow> Inr parsed)"

text \<open>
  \<^verbatim>\<open>ManifestClient.__init__\<close>, in two parts: the object after the assignments that
  precede the parse, given the values of \<^verbatim>\<open>self.dev_mode\<close> and \<^verbatim>\<open>self.manifest_path\<close>,
  and the constructor. The probe and \<^verbatim>\<open>_clean_manifest_path\<close> run outside the \<^verbatim>\<open>try\<close>,
  in this order, so what they raise leaves the constructor; of the parse only a
  \<^verbatim>\<open>DjangoViteManifestError\<close> is swallowed.
\<close>

definition unparsed_client :: "DjangoViteConfig \<Rightarrow> string \<Rightarrow> bool \<Rightarrow> location \<Rightarrow> ManifestClient" where
  "unparsed_client config name dm path =
     \<lparr> manifest_config = config,
       app_name = name,
       client_dev_mode = dm,
       client_manifest_path = path,
       client_legacy_polyfills_motif = legacy_polyfills_motif config,
       entries = Map.empty,
       legacy_polyfills_entry = None \<rparr>"

definition ManifestClient_init :: "world \<Rightarrow> DjangoViteConfig \<Rightarrow> string \<Rightarrow> ManifestClient result" where
  "ManifestClient_init w config name =
     (case (if dev_mode config then vite_is_serving w config else Inr False) of
        Inl e \<Rightarrow> Inl e
      | Inr serving \<Rightarrow>
          (case clean_manifest_path w config of
             Inl e \<Rightarrow> Inl e
           | Inr path \<Rightarrow>
               (let self = unparsed_client config name
                             (if dev_mode config \<and> serving then dev_mode config else False) path
                in if \<not> client_dev_mode self then
                     (case parse_manifest w self of
                        Inr (es, lpe) \<Rightarrow>
                          Inr (self \<lparr> entries := es, legacy_polyfills_entry := lpe \<rparr>)
                      | Inl (DjangoViteManifestError m f) \<Rightarrow> Inr self
                      | Inl e \<Rightarrow> Inl e)
                   else Inr self)))"





text \<open>\<^verbatim>\<open>ManifestClient.get\<close>.\<close>

definition ManifestClient_get :: "ManifestClient \<Rightarrow> string \<Rightarrow> ManifestEntry result" where
  "ManifestClient_get self path =
     (case entries self path of
        None \<Rightarrow>
          Inl (DjangoViteAssetNotFoundError
                 (''Cannot find '' @ path @ '' for app='' @ app_name self @
                  '' in Vite manifest at '' @ location_str (client_manifest_path self)))
      | Some manifest_entry \<Rightarrow> Inr manifest_entry)"

section \<open>DjangoViteAppClient\<close>

text \<open>
  The client keeps its configuration and its \<^verbatim>\<open>ManifestClient\<close>. The attributes
  \<^verbatim>\<open>self.dev_server_protocol\<close>, \<^verbatim>\<open>self.static_url_prefix\<close> and the like are copies of
  the fields of the immutable configuration and are read from \<open>client_config\<close> here.
  \<^verbatim>\<open>generate_vite_react_refresh_url\<close>, which formats its attributes with
  \<^verbatim>\<open>attrs_to_str\<close> of the tag generator, is left out.
\<close>

record DjangoViteAppClient =
  client_config :: DjangoViteConfig
  client_app_name :: string
  manifest :: ManifestClient

definition DjangoViteAppClient_init ::
  "world \<Rightarrow> DjangoViteConfig \<Rightarrow> string \<Rightarrow> DjangoViteAppClient result" where
  "DjangoViteAppClient_init w config name =
     (case ManifestClient_init w config name of
        Inl e \<Rightarrow> Inl e
      | Inr m \<Rightarrow> Inr \<lparr> client_config = config, client_app_name = name, manifest = m \<rparr>)"

subsection \<open>URLs\<close>

text \<open>
  \<^verbatim>\<open>_get_dev_server_url\<close>. The first value of \<^verbatim>\<open>static_url_base\<close>, from
  \<^verbatim>\<open>settings.STATIC_URL\<close>, is overwritten before it is used.
\<close>

definition get_dev_server_url :: "world \<Rightarrow> DjangoViteAppClient \<Rightarrow> string \<Rightarrow> string" where
  "get_dev_server_url w self path =
     (let config = client_config self;
          static_url_base = urljoin w '''' (static_url_prefix config);
          static_url_base = (if \<not> endswith_slash static_url_base then static_url_base @ ''/''
                             else static_url_base)
      in urljoin w
           (dev_server_protocol config @ ''://'' @ dev_server_host config @ '':'' @
            str_int (dev_server_port config))
           (urljoin w static_url_base path))"

text \<open>\<^verbatim>\<open>_get_production_server_url\<close>.\<close>

definition get_production_server_url :: "world \<Rightarrow> DjangoViteAppClient \<Rightarrow> string \<Rightarrow> string" where
  "get_production_server_url w self path =
     (let prefix = static_url_prefix (client_config self);
          production_server_url =
            (if prefix \<noteq> [] then
               urljoin w (if \<not> endswith_slash prefix then prefix @ ''/'' else prefix) path
             else path)
      in if staticfiles_installed w then staticfiles_storage_url w production_server_url
         else production_server_url)"

subsection \<open>The CSS of an asset and of what it imports\<close>

text \<open>
  The second loop of \<^verbatim>\<open>_generate_css_files_of_asset\<close>, over the \<^verbatim>\<open>css\<close> list of the
  entry: it returns the tags it appends and the list \<^verbatim>\<open>already_processed\<close> as it
  leaves it.
\<close>

fun css_tags_of_entry ::
  "(string \<Rightarrow> string) \<Rightarrow> (string \<Rightarrow> string) \<Rightarrow> string list \<Rightarrow> string list \<Rightarrow>
   string list \<times> string list" where
  "css_tags_of_entry url tag_generator [] already_processed = ([], already_processed)"
| "css_tags_of_entry url tag_generator (css_path # rest) already_processed =
     (if css_path \<notin> set already_processed then
        (let (tags, ap) = css_tags_of_entry url tag_generator rest (already_processed @ [css_path])
         in (tag_generator (url css_path) # tags, ap))
      else css_tags_of_entry url tag_generator rest already_processed)"

text \<open>
  The first loop, over the \<^verbatim>\<open>imports\<close> of the entry, with the recursive call as the
  argument \<open>recurse\<close>. The list \<^verbatim>\<open>already_processed\<close> is one Python object that every
  call appends to, so each call gets it as the call before left it.
\<close>

fun css_tags_of_imports ::
  "(string \<Rightarrow> string list option \<Rightarrow> (string list \<times> string list) result) \<Rightarrow>
   string list \<Rightarrow> string list \<Rightarrow> (string list \<times> string list) result" where
  "css_tags_of_imports recurse [] already_processed = Inr ([], already_processed)"
| "css_tags_of_imports recurse (import_path # rest) already_processed =
     (case recurse import_path (Some already_processed) of
        Inl e \<Rightarrow> Inl e
      | Inr (new_tags, ap) \<Rightarrow>
          (case css_tags_of_imports recurse rest ap of
             Inl e \<Rightarrow> Inl e
           | Inr (tags, ap') \<Rightarrow> Inr (new_tags @ tags, ap')))"

text \<open>
  \<^verbatim>\<open>_generate_css_files_of_asset\<close>. The first argument is the number of nested calls the
  interpreter still allows: the recursion of the source has no other bound, and Python
  raises \<^verbatim>\<open>RecursionError\<close> when its recursion limit is reached.
\<close>

primrec generate_css_files_of_asset ::
  "nat \<Rightarrow> world \<Rightarrow> DjangoViteAppClient \<Rightarrow> (string \<Rightarrow> string) \<Rightarrow> string \<Rightarrow>
   string list option \<Rightarrow> (string list \<times> string list) result" where
  "generate_css_files_of_asset 0 w self tag_generator path already_processed =
     Inl RecursionError"
| "generate_css_files_of_asset (Suc depth) w self tag_generator path already_processed =
     (let already_processed = (case already_processed of None \<Rightarrow> [] | Some ap \<Rightarrow> ap)
      in case ManifestClient_get (manifest self) path of
           Inl e \<Rightarrow> Inl e
         | Inr manifest_entry \<Rightarrow>
             (case css_tags_of_imports (generate_css_files_of_asset depth w self tag_generator)
                     (entry_imports manifest_entry) already_processed of
                Inl e \<Rightarrow> Inl e
              | Inr (tags, ap) \<Rightarrow>
                  (let (own_tags, ap') =
                         css_tags_of_entry (get_production_server_url w self) tag_generator
                           (css manifest_entry) ap
                   in Inr (tags @ own_tags, ap'))))"

definition load_css_files_of_asset ::
  "nat \<Rightarrow> world \<Rightarrow> DjangoViteAppClient \<Rightarrow> string \<Rightarrow> string list result" where
  "load_css_files_of_asset depth w self path =
     map_sum id fst (generate_css_files_of_asset depth w self (tag_stylesheet w) path None)"

definition preload_css_files_of_asset ::
  "nat \<Rightarrow> world \<Rightarrow> DjangoViteAppClient \<Rightarrow> string \<Rightarrow> string list result" where
  "preload_css_files_of_asset depth w self path =
     map_sum id fst (generate_css_files_of_asset depth w self (tag_stylesheet_preload w) path None)"

subsection \<open>Tags of an asset\<close>

text \<open>The loop \<^verbatim>\<open>for dep in manifest_entry.imports\<close> that appends the preload tags.\<close>

fun preload_imports ::
  "world \<Rightarrow> DjangoViteAppClient \<Rightarrow> attrs \<Rightarrow> string list \<Rightarrow> string list result" where
  "preload_imports w self preload_attrs [] = Inr []"
| "preload_imports w self preload_attrs (dep # deps) =
     (case ManifestClient_get (manifest self) dep of
        Inl e \<Rightarrow> Inl e
      | Inr dep_manifest_entry \<Rightarrow>
          (case preload_imports w self preload_attrs deps of
             Inl e \<Rightarrow> Inl e
           | Inr tags \<Rightarrow>
               Inr (tag_preload w (get_production_server_url w self (entry_file dep_manifest_entry))
                      preload_attrs # tags)))"

definition modulepreload_attrs :: attrs where
  "modulepreload_attrs =
     [(''type'', ''text/javascript''), (''crossorigin'', ''anonymous''),
      (''rel'', ''modulepreload''), (''as'', ''script'')]"

text \<open>\<^verbatim>\<open>generate_vite_asset\<close>; \<open>depth\<close> is the recursion the interpreter still allows.\<close>

definition generate_vite_asset ::
  "nat \<Rightarrow> world \<Rightarrow> DjangoViteAppClient \<Rightarrow> string \<Rightarrow> attrs \<Rightarrow> string result" where
  "generate_vite_asset depth w self path kwargs =
     (case vite_is_serving w (client_config self) of
        Inl e \<Rightarrow> Inl e
      | Inr True \<Rightarrow>
          Inr (tag_script w (get_dev_server_url w self path)
                 (dict_merge [(''type'', ''module'')] kwargs))
      | Inr False \<Rightarrow>
          (case ManifestClient_get (manifest self) path of
             Inl e \<Rightarrow> Inl e
           | Inr manifest_entry \<Rightarrow>
               (let scripts_attrs = dict_merge [(''type'', ''module''), (''crossorigin'', '''')] kwargs
                in case load_css_files_of_asset depth w self path of
                     Inl e \<Rightarrow> Inl e
                   | Inr css_tags \<Rightarrow>
                       (let script =
                              tag_script w (get_production_server_url w self (entry_file manifest_entry))
                                scripts_attrs
                        in case preload_imports w self modulepreload_attrs
                                  (entry_imports manifest_entry) of
                             Inl e \<Rightarrow> Inl e
                           | Inr preloads \<Rightarrow> Inr (join_lines (css_tags @ [script] @ preloads))))))"

text \<open>\<^verbatim>\<open>preload_vite_asset\<close>.\<close>

definition preload_vite_asset ::
  "nat \<Rightarrow> world \<Rightarrow> DjangoViteAppClient \<Rightarrow> string \<Rightarrow> string result" where
  "preload_vite_asset depth w self path =
     (case vite_is_serving w (client_config self) of
        Inl e \<Rightarrow> Inl e
      | Inr True \<Rightarrow> Inr ''''
      | Inr False \<Rightarrow>
          (case ManifestClient_get (manifest self) path of
             Inl e \<Rightarrow> Inl e
           | Inr manifest_entry \<Rightarrow>
               (let script =
                      tag_preload w (get_production_server_url w self (entry_file manifest_entry))
                        modulepreload_attrs
                in case preload_css_files_of_asset depth w self path of
                     Inl e \<Rightarrow> Inl e
                   | Inr css_tags \<Rightarrow>
                       (case preload_imports w self modulepreload_attrs
                               (entry_imports manifest_entry) of
                          Inl e \<Rightarrow> Inl e
                        | Inr preloads \<Rightarrow> Inr (join_lines ([script] @ css_tags @ preloads))))))"

text \<open>\<^verbatim>\<open>generate_vite_asset_url\<close>.\<close>

definition generate_vite_asset_url :: "world \<Rightarrow> DjangoViteAppClient \<Rightarrow> string \<Rightarrow> string result" where
  "generate_vite_asset_url w self path =
     (case vite_is_serving w (client_config self) of
        Inl e \<Rightarrow> Inl e
      | Inr True \<Rightarrow> Inr (get_dev_server_url w self path)
      | Inr False \<Rightarrow>
          (case ManifestClient_get (manifest self) path of
             Inl e \<Rightarrow> Inl e
           | Inr manifest_entry \<Rightarrow>
               Inr (get_production_server_url w self (entry_file manifest_entry))))"

text \<open>
  \<^verbatim>\<open>generate_vite_legacy_polyfills\<close>. A \<^verbatim>\<open>ManifestEntry\<close> is a tuple of seven fields and
  so never false: \<^verbatim>\<open>not polyfills_manifest_entry\<close> holds for \<^verbatim>\<open>None\<close> only.
\<close>

definition generate_vite_legacy_polyfills ::
  "world \<Rightarrow> DjangoViteAppClient \<Rightarrow> attrs \<Rightarrow> string result" where
  "generate_vite_legacy_polyfills w self kwargs =
     (case vite_is_serving w (client_config self) of
        Inl e \<Rightarrow> Inl e
      | Inr True \<Rightarrow> Inr ''''
      | Inr False \<Rightarrow>
          (case legacy_polyfills_entry (manifest self) of
             None \<Rightarrow>
               Inl (DjangoViteAssetNotFoundError
                      (''Vite legacy polyfills not found in manifest at '' @
                       location_str (client_manifest_path (manifest self))))
           | Some polyfills_manifest_entry \<Rightarrow>
               Inr (tag_script w
                      (get_production_server_url w self (entry_file polyfills_manifest_entry))
                      (dict_merge [(''nomodule'', ''''), (''crossorigin'', '''')] kwargs))))"

text \<open>\<^verbatim>\<open>generate_vite_legacy_asset\<close>.\<close>

definition generate_vite_legacy_asset ::
  "world \<Rightarrow> DjangoViteAppClient \<Rightarrow> string \<Rightarrow> attrs \<Rightarrow> string result" where
  "generate_vite_legacy_asset w self path kwargs =
     (case vite_is_serving w (client_config self) of
        Inl e \<Rightarrow> Inl e
      | Inr True \<Rightarrow> Inr ''''
      | Inr False \<Rightarrow>
          (case ManifestClient_get (manifest self) path of
             Inl e \<Rightarrow> Inl e
           | Inr manifest_entry \<Rightarrow>
               Inr (tag_script w
                      (get_production_server_url w self (entry_file manifest_entry))
                      (dict_merge [(''nomodule'', ''''), (''crossorigin'', '''')] kwargs))))"

text \<open>\<^verbatim>\<open>generate_vite_ws_client\<close>.\<close>

definition generate_vite_ws_client ::
  "world \<Rightarrow> DjangoViteAppClient \<Rightarrow> attrs \<Rightarrow> string result" where
  "generate_vite_ws_client w self kwargs =
     (case vite_is_serving w (client_config self) of
        Inl e \<Rightarrow> Inl e
      | Inr False \<Rightarrow> Inr ''''
      | Inr True \<Rightarrow>
          Inr (tag_script w (get_dev_server_url w self (ws_client_url (client_config self)))
                 (dict_merge [(''type'', ''module'')] kwargs)))"

section \<open>DjangoViteAssetLoader: the registry\<close>

subsection \<open>Settings\<close>








subsection \<open>Warnings\<close>





subsection \<open>Initialisation\<close>








section \<open>The import graph of a manifest\<close>

text \<open>
  The edges of the graph: \<open>(p, d)\<close> when \<open>p\<close> is a key of the table and \<open>d\<close> is in the
  \<^verbatim>\<open>imports\<close> of its entry.
\<close>

definition import_edges :: "manifest_table \<Rightarrow> (string \<times> string) set" where
  "import_edges t = {(p, d). \<exists>e. t p = Some e \<and> d \<in> set (entry_imports e)}"

text \<open>Every path reached from \<open>path\<close> along import edges is a key of the table.\<close>

definition imports_present_from :: "manifest_table \<Rightarrow> string \<Rightarrow> bool" where
  "imports_present_from t path =
     (\<forall>p. (path, p) \<in> (import_edges t)\<^sup>* \<longrightarrow> p \<in> dom t)"

text \<open>No path reached from \<open>path\<close> is on a cycle of import edges.\<close>

definition imports_acyclic_from :: "manifest_table \<Rightarrow> string \<Rightarrow> bool" where
  "imports_acyclic_from t path =
     (\<forall>p. (path, p) \<in> (import_edges t)\<^sup>* \<longrightarrow> (p, p) \<notin> (import_edges t)\<^sup>+)"

text \<open>
  Depth-first import order, in the words of the specification: the CSS paths met from
  \<open>path\<close> are those met from each of its imports, in the order of the \<^verbatim>\<open>imports\<close> list,
  followed by the \<^verbatim>\<open>css\<close> list of the entry itself. A path met several times is
  listed each time.
\<close>

inductive css_in_import_order :: "manifest_table \<Rightarrow> string \<Rightarrow> string list \<Rightarrow> bool"
  for t :: manifest_table where
  visit: "t path = Some e \<Longrightarrow> list_all2 (css_in_import_order t) (entry_imports e) seqs \<Longrightarrow>
          css_in_import_order t path (concat seqs @ css e)"

text \<open>
  The elements of a list at the place where each is met first: position \<open>i\<close> stays
  when its element is at no earlier position.
\<close>

definition first_encounters :: "'a list \<Rightarrow> 'a list" where
  "first_encounters xs =
     map (\<lambda>i. xs ! i) (filter (\<lambda>i. xs ! i \<notin> set (take i xs)) [0..<length xs])"

text \<open>The same with a list of elements that count as met before.\<close>

fun first_new :: "'a list \<Rightarrow> 'a list \<Rightarrow> 'a list" where
  "first_new seen [] = []"
| "first_new seen (x # xs) =
     (if x \<in> set seen then first_new seen xs else x # first_new (seen @ [x]) xs)"

text \<open>The keys of the document that contain the motif, with their rows, in key order.\<close>

definition motif_matches :: "string \<Rightarrow> (string \<times> row_json) list \<Rightarrow> (string \<times> row_json) list" where
  "motif_matches motif items = filter (\<lambda>(path, data). str_contains motif path) items"

section \<open>Example data\<close>

text \<open>
  A world with no dev server and no manifest, with plain stand-ins for the library
  functions and for the tag generator.
\<close>

definition example_world :: world where
  "example_world =
     \<lparr> session_get = (\<lambda>url. ConnectionError),
       fs_open = (\<lambda>l. None),
       requests_get = (\<lambda>l. None),
       json_loads = (\<lambda>s. None),
       STATIC_ROOT = Some ''/static'',
       Path_new = (\<lambda>s. s),
       Path_div = (\<lambda>a b. if b = [] then a else a @ ''/'' @ b),
       urljoin = (\<lambda>a b. a @ b),
       staticfiles_installed = False,
       staticfiles_storage_url = (\<lambda>s. s),
       tag_script = (\<lambda>url a. ''<script src='' @ url @ ''>''),
       tag_stylesheet = (\<lambda>url. ''<link rel=stylesheet href='' @ url @ ''>''),
       tag_stylesheet_preload = (\<lambda>url. ''<link rel=preload href='' @ url @ ''>''),
       tag_preload = (\<lambda>url a. ''<link rel=modulepreload href='' @ url @ ''>'') \<rparr>"

text \<open>The manifest of the specification's example, as rows and as entries.\<close>

definition empty_row :: manifest_row where
  "empty_row =
     \<lparr> row_file = None, row_src = None, row_isEntry = None, row_isDynamicEntry = None,
       row_css = None, row_imports = None, row_dynamicImports = None, row_other_fields = [] \<rparr>"

definition main_row :: manifest_row where
  "main_row = empty_row \<lparr> row_file := Some ''main.abc123.js'', row_imports := Some [''lib.js''],
                           row_css := Some [''main.css''] \<rparr>"

definition lib_row :: manifest_row where
  "lib_row = empty_row \<lparr> row_file := Some ''lib.def456.js'', row_css := Some [''lib.css''] \<rparr>"

definition example_items :: "(string \<times> row_json) list" where
  "example_items = [(''main.js'', RowObject main_row), (''lib.js'', RowObject lib_row)]"

definition main_entry :: ManifestEntry where
  "main_entry =
     \<lparr> entry_file = ''main.abc123.js'', src = None, isEntry = False, isDynamicEntry = False,
       css = [''main.css''], entry_imports = [''lib.js''], dynamicImports = [] \<rparr>"

definition lib_entry :: ManifestEntry where
  "lib_entry =
     \<lparr> entry_file = ''lib.def456.js'', src = None, isEntry = False, isDynamicEntry = False,
       css = [''lib.css''], entry_imports = [], dynamicImports = [] \<rparr>"

definition example_entries :: "(string \<times> ManifestEntry) list" where
  "example_entries = [(''main.js'', main_entry), (''lib.js'', lib_entry)]"

definition example_table :: manifest_table where
  "example_table = map_of example_entries"

text \<open>A world whose default manifest location holds the example document.\<close>

definition manifest_world :: "(string \<times> row_json) list \<Rightarrow> world" where
  "manifest_world items =
     example_world
       \<lparr> fs_open := (\<lambda>l. if l = PathLoc ''/static/manifest.json'' then Some (Some ''{...}'') else None),
         json_loads := (\<lambda>s. if s = ''{...}'' then Some (DocObject items) else None) \<rparr>"

text \<open>A production client over a given table.\<close>

definition client_of_table :: "manifest_table \<Rightarrow> ManifestEntry option \<Rightarrow> DjangoViteAppClient" where
  "client_of_table t lpe =
     \<lparr> client_config = DjangoViteConfig_default,
       client_app_name = ''default'',
       manifest =
         \<lparr> manifest_config = DjangoViteConfig_default,
           app_name = ''default'',
           client_dev_mode = False,
           client_manifest_path = PathLoc ''/static/manifest.json'',
           client_legacy_polyfills_motif = ''legacy-polyfills'',
           entries = t,
           legacy_polyfills_entry = lpe \<rparr> \<rparr>"

text \<open>An entry that imports itself.\<close>

definition cyclic_entry :: ManifestEntry where
  "cyclic_entry =
     \<lparr> entry_file = ''a.123.js'', src = None, isEntry = False, isDynamicEntry = False,
       css = [], entry_imports = [''a.js''], dynamicImports = [] \<rparr>"

definition cyclic_table :: manifest_table where
  "cyclic_table = map_of [(''a.js'', cyclic_entry)]"

text \<open>
  A diamond: \<^verbatim>\<open>app.js\<close> imports \<^verbatim>\<open>left.js\<close> and \<^verbatim>\<open>right.js\<close>, and both import
  \<^verbatim>\<open>base.js\<close>.
\<close>

definition app_entry :: ManifestEntry where
  "app_entry =
     \<lparr> entry_file = ''app.1.js'', src = None, isEntry = True, isDynamicEntry = False,
       css = [''app.css'', ''base.css''], entry_imports = [''left.js'', ''right.js''],
       dynamicImports = [] \<rparr>"

definition left_entry :: ManifestEntry where
  "left_entry =
     \<lparr> entry_file = ''left.2.js'', src = None, isEntry = False, isDynamicEntry = False,
       css = [''left.css''], entry_imports = [''base.js''], dynamicImports = [] \<rparr>"

definition right_entry :: ManifestEntry where
  "right_entry =
     \<lparr> entry_file = ''right.3.js'', src = None, isEntry = False, isDynamicEntry = False,
       css = [''right.css''], entry_imports = [''base.js''], dynamicImports = [] \<rparr>"

definition base_entry :: ManifestEntry where
  "base_entry =
     \<lparr> entry_file = ''base.4.js'', src = None, isEntry = False, isDynamicEntry = False,
       css = [''base.css''], entry_imports = [], dynamicImports = [] \<rparr>"

definition diamond_entries :: "(string \<times> ManifestEntry) list" where
  "diamond_entries =
     [(''app.js'', app_entry), (''left.js'', left_entry),
      (''right.js'', right_entry), (''base.js'', base_entry)]"

definition diamond_table :: manifest_table where
  "diamond_table = map_of diamond_entries"

text \<open>A dev-mode configuration for a server reached over HTTPS, and a world with that server up.\<close>

definition https_config :: DjangoViteConfig where
  "https_config = DjangoViteConfig_default \<lparr> dev_mode := True, dev_server_protocol := ''https'' \<rparr>"

definition https_world :: world where
  "https_world =
     example_world
       \<lparr> session_get := (\<lambda>url. if url = ''https://localhost:5173/'' then Response 404
                               else ConnectionError) \<rparr>"

text \<open>A dev-mode configuration over HTTP, and a world with its server up.\<close>

definition dev_config :: DjangoViteConfig where
  "dev_config = DjangoViteConfig_default \<lparr> dev_mode := True \<rparr>"

definition dev_world :: world where
  "dev_world =
     example_world
       \<lparr> session_get := (\<lambda>url. if url = ''http://localhost:5173/'' then Response 404
                               else ConnectionError) \<rparr>"

text \<open>Two documents for the polyfills motif: two matching keys, and a row without \<^verbatim>\<open>file\<close>.\<close>

definition file_row :: "string \<Rightarrow> manifest_row" where
  "file_row f = empty_row \<lparr> row_file := Some f \<rparr>"

definition file_entry :: "string \<Rightarrow> ManifestEntry" where
  "file_entry f =
     \<lparr> entry_file = f, src = None, isEntry = False, isDynamicEntry = False,
       css = [], entry_imports = [], dynamicImports = [] \<rparr>"

definition polyfills_items :: "(string \<times> row_json) list" where
  "polyfills_items =
     [(''vite/legacy-polyfills-legacy'', RowObject (file_row ''polyfills.1.js'')),
      (''main.js'', RowObject main_row),
      (''lib.js'', RowObject lib_row),
      (''other/legacy-polyfills'', RowObject (file_row ''polyfills.2.js''))]"

definition broken_items :: "(string \<times> row_json) list" where
  "broken_items =
     [(''main.js'', RowObject main_row),
      (''lib.js'', RowObject lib_row),
      (''broken.js'', RowObject (empty_row \<lparr> row_src := Some ''broken.js'' \<rparr>))]"


text \<open>The production client of the example put under a dev-mode configuration.\<close>

definition dev_client :: DjangoViteAppClient where
  "dev_client = (client_of_table example_table None) \<lparr> client_config := dev_config \<rparr>"

definition https_client :: DjangoViteAppClient where
  "https_client = (client_of_table example_table None) \<lparr> client_config := https_config \<rparr>"

text \<open>A document with one key that contains the motif.\<close>

definition single_polyfills_items :: "(string \<times> row_json) list" where
  "single_polyfills_items =
     [(''main.js'', RowObject main_row),
      (''vite/legacy-polyfills-legacy'', RowObject (file_row ''polyfills.1.js'')),
      (''lib.js'', RowObject lib_row)]"






section \<open>First encounters\<close>

text \<open>
  The loop over a \<^verbatim>\<open>css\<close> list keeps the paths that are new, in order, and the
  elements that are new to an empty list are the first encounters.
\<close>

lemma css_tags_of_entry_eq:
  "css_tags_of_entry url g cs ap = (map (\<lambda>c. g (url c)) (first_new ap cs), ap @ first_new ap cs)"
  by (induction cs arbitrary: ap) (auto simp: Let_def)

lemma first_new_append:
  "first_new seen (xs @ ys) = first_new seen xs @ first_new (seen @ first_new seen xs) ys"
  by (induction xs arbitrary: seen) auto

lemma set_first_new: "set (first_new seen xs) = set xs - set seen"
  by (induction xs arbitrary: seen) auto

lemma distinct_first_new: "distinct (first_new seen xs)"
  by (induction xs arbitrary: seen) (auto simp: set_first_new)

lemma upt_Suc_shift: "[0..<Suc n] = 0 # map Suc [0..<n]"
  by (simp add: upt_conv_Cons map_Suc_upt del: upt_Suc)

lemma first_new_index:
  "first_new seen xs =
     map (\<lambda>i. xs ! i) (filter (\<lambda>i. xs ! i \<notin> set seen \<union> set (take i xs)) [0..<length xs])"
proof (induction xs arbitrary: seen)
  case Nil
  show ?case by simp
next
  case (Cons x xs)
  have shift: "[0..<length (x # xs)] = 0 # map Suc [0..<length xs]"
    using upt_Suc_shift [of "length xs"] by simp
  let ?P = "\<lambda>i. (x # xs) ! i \<notin> set seen \<union> set (take i (x # xs))"
  let ?Q = "\<lambda>i. xs ! i \<notin> set seen \<union> insert x (set (take i xs))"
  have rhs: "map (\<lambda>i. (x # xs) ! i) (filter ?P [0..<length (x # xs)]) =
             (if x \<in> set seen then [] else [x]) @ map (\<lambda>i. xs ! i) (filter ?Q [0..<length xs])"
    by (simp only: shift) (simp add: filter_map comp_def conj_ac)
  show ?case
  proof (cases "x \<in> set seen")
    case True
    have "filter ?Q [0..<length xs] =
          filter (\<lambda>i. xs ! i \<notin> set seen \<union> set (take i xs)) [0..<length xs]"
      using True by (intro filter_cong) auto
    then have "map (\<lambda>i. xs ! i) (filter ?Q [0..<length xs]) = first_new seen xs"
      by (simp only: Cons.IH [of seen])
    with True show ?thesis by (simp only: rhs) simp
  next
    case False
    have "filter ?Q [0..<length xs] =
          filter (\<lambda>i. xs ! i \<notin> set (seen @ [x]) \<union> set (take i xs)) [0..<length xs]"
      by (intro filter_cong) auto
    then have "map (\<lambda>i. xs ! i) (filter ?Q [0..<length xs]) = first_new (seen @ [x]) xs"
      by (simp only: Cons.IH [of "seen @ [x]"])
    with False show ?thesis by (simp only: rhs) simp
  qed
qed

lemma first_encounters_eq: "first_encounters xs = first_new [] xs"
  by (simp add: first_encounters_def first_new_index)

section \<open>The CSS walk follows depth-first import order\<close>

lemma css_tags_of_imports_eq:
  assumes "list_all2 (\<lambda>d s. \<forall>ap. recurse d (Some ap) = Inr (map f (first_new ap s), ap @ first_new ap s)) ds seqs"
  shows "css_tags_of_imports recurse ds ap =
           Inr (map f (first_new ap (concat seqs)), ap @ first_new ap (concat seqs))"
  using assms by (induction arbitrary: ap rule: list_all2_induct) (auto simp: first_new_append)

lemma uniform_depth:
  assumes "list_all2 (\<lambda>d s. \<exists>N. \<forall>n\<ge>N. Q n d s) ds seqs"
  shows "\<exists>N::nat. \<forall>n\<ge>N. list_all2 (Q n) ds seqs"
  using assms
proof (induction rule: list_all2_induct)
  case Nil
  show ?case by simp
next
  case (Cons d ds s seqs)
  from Cons.hyps(1) obtain N1 where N1: "\<forall>n\<ge>N1. Q n d s" by blast
  from Cons.IH obtain N2 where N2: "\<forall>n\<ge>N2. list_all2 (Q n) ds seqs" by blast
  have "\<forall>n\<ge>max N1 N2. list_all2 (Q n) (d # ds) (s # seqs)"
    using N1 N2 by simp
  then show ?case by blast
qed

lemma generate_css_None:
  "generate_css_files_of_asset depth w self g path None =
   generate_css_files_of_asset depth w self g path (Some [])"
  by (cases depth) simp_all

lemma generate_css_correct:
  assumes "css_in_import_order (entries (manifest self)) path seq"
  shows "\<exists>N. \<forall>depth\<ge>N. \<forall>ap.
           generate_css_files_of_asset depth w self g path (Some ap) =
             Inr (map (\<lambda>c. g (get_production_server_url w self c)) (first_new ap seq),
                  ap @ first_new ap seq)"
  using assms
proof (induction rule: css_in_import_order.induct)
  case (visit path e seqs)
  let ?f = "\<lambda>c. g (get_production_server_url w self c)"
  let ?Q = "\<lambda>n d s. \<forall>ap. generate_css_files_of_asset n w self g d (Some ap) =
                  Inr (map ?f (first_new ap s), ap @ first_new ap s)"
  have "list_all2 (\<lambda>d s. \<exists>N. \<forall>n\<ge>N. ?Q n d s) (entry_imports e) seqs"
    using visit.IH by (rule list_all2_mono) blast
  then obtain N where N: "\<forall>n\<ge>N. list_all2 (?Q n) (entry_imports e) seqs"
    using uniform_depth [of ?Q] by blast
  have "generate_css_files_of_asset depth w self g path (Some ap) =
          Inr (map ?f (first_new ap (concat seqs @ css e)), ap @ first_new ap (concat seqs @ css e))"
    if "Suc N \<le> depth" for depth ap
  proof -
    from that obtain n where depth: "depth = Suc n" and n: "N \<le> n"
      by (cases depth) auto
    have loop: "css_tags_of_imports (generate_css_files_of_asset n w self g) (entry_imports e) ap =
                  Inr (map ?f (first_new ap (concat seqs)), ap @ first_new ap (concat seqs))"
      using N n by (intro css_tags_of_imports_eq) blast
    show ?thesis
      by (simp add: depth ManifestClient_get_def visit.hyps loop css_tags_of_entry_eq first_new_append)
  qed
  then show ?case by blast
qed

section \<open>Acyclic import graphs have a depth-first order\<close>

lemma list_all2_ex: "\<forall>x\<in>set xs. \<exists>y. P x y \<Longrightarrow> \<exists>ys. list_all2 P xs ys"
proof (induction xs)
  case Nil
  show ?case by simp
next
  case (Cons x xs)
  then obtain y ys where "P x y" "list_all2 P xs ys" by auto
  then have "list_all2 P (x # xs) (y # ys)" by simp
  then show ?case by blast
qed

lemma css_order_exists:
  assumes fin: "finite (dom t)"
    and acyc: "imports_acyclic_from t path"
    and pres: "imports_present_from t path"
  shows "\<exists>seq. css_in_import_order t path seq"
proof -
  let ?E = "import_edges t"
  define R where "R = {(d, p). (p, d) \<in> ?E \<and> (path, p) \<in> ?E\<^sup>*}"
  have "R \<subseteq> (\<Union>e\<in>ran t. set (entry_imports e)) \<times> dom t"
    by (auto simp: R_def import_edges_def ran_def)
  moreover have "finite ((\<Union>e\<in>ran t. set (entry_imports e)) \<times> dom t)"
    using fin by (simp add: finite_ran)
  ultimately have finR: "finite R" by (rule finite_subset)
  have sub: "R \<subseteq> ?E\<inverse>" by (auto simp: R_def)
  have "acyclic R"
  proof (rule acyclicI, rule allI, rule notI)
    fix x assume xx: "(x, x) \<in> R\<^sup>+"
    then have "(x, x) \<in> (?E\<inverse>)\<^sup>+" using trancl_mono [OF _ sub] by blast
    then have cyc: "(x, x) \<in> ?E\<^sup>+" by (simp add: trancl_converse)
    from xx obtain y where "(x, y) \<in> R" by (auto dest: tranclD)
    then have "(path, x) \<in> ?E\<^sup>*" by (auto simp: R_def)
    with acyc cyc show False by (simp add: imports_acyclic_from_def)
  qed
  with finR have "wf R" by (rule finite_acyclic_wf)
  then have "(path, p) \<in> ?E\<^sup>* \<longrightarrow> (\<exists>seq. css_in_import_order t p seq)" for p
  proof (induction p rule: wf_induct_rule)
    case (less p)
    show ?case
    proof
      assume reach: "(path, p) \<in> ?E\<^sup>*"
      with pres obtain e where e: "t p = Some e"
        by (auto simp: imports_present_from_def)
      have "\<forall>d\<in>set (entry_imports e). \<exists>s. css_in_import_order t d s"
      proof
        fix d assume d: "d \<in> set (entry_imports e)"
        then have edge: "(p, d) \<in> ?E" using e by (auto simp: import_edges_def)
        then have "(d, p) \<in> R" using reach by (simp add: R_def)
        moreover have "(path, d) \<in> ?E\<^sup>*" using reach edge by (rule rtrancl_into_rtrancl)
        ultimately show "\<exists>s. css_in_import_order t d s" using less.IH by blast
      qed
      then obtain seqs where "list_all2 (css_in_import_order t) (entry_imports e) seqs"
        using list_all2_ex by blast
      with e have "css_in_import_order t p (concat seqs @ css e)"
        by (rule css_in_import_order.visit)
      then show "\<exists>seq. css_in_import_order t p seq" by blast
    qed
  qed
  then show ?thesis by blast
qed

lemma set_first_encounters: "set (first_encounters xs) = set xs"
  by (simp add: first_encounters_eq set_first_new)

lemma distinct_first_encounters: "distinct (first_encounters xs)"
  by (simp add: first_encounters_eq distinct_first_new)

section \<open>Checking a table given as a list\<close>

lemma acyclic_from_rank:
  fixes rank :: "string \<Rightarrow> nat"
  assumes "\<forall>(p, e)\<in>set al. \<forall>d\<in>set (entry_imports e). rank d < rank p"
  shows "imports_acyclic_from (map_of al) path"
proof -
  have "(import_edges (map_of al))\<inverse> \<subseteq> measure rank"
    using assms by (auto simp: import_edges_def dest!: map_of_SomeD)
  then have "wf ((import_edges (map_of al))\<inverse>)"
    by (rule wf_subset [OF wf_measure])
  then have "acyclic (import_edges (map_of al))"
    using wf_acyclic acyclic_converse by blast
  then show ?thesis
    by (simp add: imports_acyclic_from_def acyclic_def)
qed

lemma present_from_closed:
  assumes "path \<in> fst ` set al"
    and "\<forall>(p, e)\<in>set al. set (entry_imports e) \<subseteq> fst ` set al"
  shows "imports_present_from (map_of al) path"
proof -
  have "p \<in> fst ` set al" if "(path, p) \<in> (import_edges (map_of al))\<^sup>*" for p
    using that
  proof (induction rule: rtrancl_induct)
    case base
    show ?case by (rule assms(1))
  next
    case (step p d)
    then obtain e where "map_of al p = Some e" "d \<in> set (entry_imports e)"
      by (auto simp: import_edges_def)
    then show ?case using assms(2) by (auto dest!: map_of_SomeD)
  qed
  then show ?thesis by (simp add: imports_present_from_def dom_map_of_conv_image_fst)
qed

section \<open>One level of the CSS walk\<close>

lemma generate_css_step:
  assumes "entries (manifest self) path = Some e"
    and "list_all2 (\<lambda>d s. \<forall>ap. generate_css_files_of_asset n w self g d (Some ap) =
            Inr (map (\<lambda>c. g (get_production_server_url w self c)) (first_new ap s), ap @ first_new ap s))
          (entry_imports e) seqs"
  shows "generate_css_files_of_asset (Suc n) w self g path (Some ap) =
           Inr (map (\<lambda>c. g (get_production_server_url w self c)) (first_new ap (concat seqs @ css e)),
                ap @ first_new ap (concat seqs @ css e))"
proof -
  have "css_tags_of_imports (generate_css_files_of_asset n w self g) (entry_imports e) ap =
          Inr (map (\<lambda>c. g (get_production_server_url w self c)) (first_new ap (concat seqs)),
               ap @ first_new ap (concat seqs))"
    using assms(2) by (rule css_tags_of_imports_eq)
  then show ?thesis
    by (simp add: ManifestClient_get_def assms(1) css_tags_of_entry_eq first_new_append)
qed

declare generate_css_files_of_asset.simps [simp del]

section \<open>The examples, evaluated\<close>

lemma client_of_table_entries: "entries (manifest (client_of_table t lpe)) = t"
  by (simp add: client_of_table_def)

lemma example_url:
  "get_production_server_url example_world (client_of_table t lpe) path = path"
  by (simp add: get_production_server_url_def client_of_table_def DjangoViteConfig_default_def
        example_world_def)

lemma diamond_finite: "finite (dom diamond_table)"
  by (simp add: diamond_table_def finite_dom_map_of)

lemma diamond_acyclic: "imports_acyclic_from diamond_table ''app.js''"
  unfolding diamond_table_def
  by (rule acyclic_from_rank
        [where rank = "\<lambda>p. if p = ''app.js'' then 2 else if p = ''base.js'' then 0 else 1"])
     (simp add: diamond_entries_def app_entry_def left_entry_def right_entry_def base_entry_def)

lemma diamond_present: "imports_present_from diamond_table ''app.js''"
  unfolding diamond_table_def
  by (rule present_from_closed)
     (simp_all add: diamond_entries_def app_entry_def left_entry_def right_entry_def base_entry_def)

lemma diamond_lookup:
  "diamond_table ''app.js'' = Some app_entry"
  "diamond_table ''left.js'' = Some left_entry"
  "diamond_table ''right.js'' = Some right_entry"
  "diamond_table ''base.js'' = Some base_entry"
  by (simp_all add: diamond_table_def diamond_entries_def)

lemma diamond_base:
  "generate_css_files_of_asset (Suc n) w (client_of_table diamond_table None) g ''base.js'' (Some ap) =
     Inr (map (\<lambda>c. g (get_production_server_url w (client_of_table diamond_table None) c))
            (first_new ap [''base.css'']), ap @ first_new ap [''base.css''])"
proof -
  have e: "entries (manifest (client_of_table diamond_table None)) ''base.js'' = Some base_entry"
    by (simp only: client_of_table_entries diamond_lookup)
  have "list_all2 (\<lambda>d s. \<forall>ap. generate_css_files_of_asset n w (client_of_table diamond_table None) g d (Some ap) =
            Inr (map (\<lambda>c. g (get_production_server_url w (client_of_table diamond_table None) c)) (first_new ap s), ap @ first_new ap s))
          (entry_imports base_entry) []"
    by (simp add: base_entry_def)
  from generate_css_step [OF e this, of ap] show ?thesis
    by (simp add: base_entry_def)
qed

lemma diamond_side:
  assumes "e = left_entry \<and> p = ''left.js'' \<and> c = ''left.css'' \<or>
           e = right_entry \<and> p = ''right.js'' \<and> c = ''right.css''"
  shows "generate_css_files_of_asset (Suc (Suc n)) w (client_of_table diamond_table None) g p (Some ap) =
     Inr (map (\<lambda>c. g (get_production_server_url w (client_of_table diamond_table None) c))
            (first_new ap [''base.css'', c]), ap @ first_new ap [''base.css'', c])"
proof -
  have e: "entries (manifest (client_of_table diamond_table None)) p = Some e"
    using assms by (auto simp only: client_of_table_entries diamond_lookup)
  have imp: "entry_imports e = [''base.js'']" and own: "css e = [c]"
    using assms by (auto simp: left_entry_def right_entry_def)
  have "list_all2 (\<lambda>d s. \<forall>ap. generate_css_files_of_asset (Suc n) w (client_of_table diamond_table None) g d (Some ap) =
            Inr (map (\<lambda>c. g (get_production_server_url w (client_of_table diamond_table None) c)) (first_new ap s), ap @ first_new ap s))
          (entry_imports e) [[''base.css'']]"
    using diamond_base [of n w g] by (simp add: imp)
  from generate_css_step [OF e this, of ap] show ?thesis
    by (simp add: own)
qed

lemma diamond_app:
  "generate_css_files_of_asset (Suc (Suc (Suc n))) w (client_of_table diamond_table None) g ''app.js'' (Some ap) =
     Inr (map (\<lambda>c. g (get_production_server_url w (client_of_table diamond_table None) c))
            (first_new ap [''base.css'', ''left.css'', ''base.css'', ''right.css'', ''app.css'', ''base.css'']),
          ap @ first_new ap [''base.css'', ''left.css'', ''base.css'', ''right.css'', ''app.css'', ''base.css''])"
proof -
  have e: "entries (manifest (client_of_table diamond_table None)) ''app.js'' = Some app_entry"
    by (simp only: client_of_table_entries diamond_lookup)
  have imp: "entry_imports app_entry = [''left.js'', ''right.js'']"
    and own: "css app_entry = [''app.css'', ''base.css'']"
    by (simp_all add: app_entry_def)
  have "list_all2 (\<lambda>d s. \<forall>ap. generate_css_files_of_asset (Suc (Suc n)) w (client_of_table diamond_table None) g d (Some ap) =
            Inr (map (\<lambda>c. g (get_production_server_url w (client_of_table diamond_table None) c)) (first_new ap s), ap @ first_new ap s))
          (entry_imports app_entry) [[''base.css'', ''left.css''], [''base.css'', ''right.css'']]"
    using diamond_side [of left_entry "''left.js''" "''left.css''" n w g]
      diamond_side [of right_entry "''right.js''" "''right.css''" n w g]
    by (simp add: imp)
  from generate_css_step [OF e this, of ap] show ?thesis
    by (simp add: own)
qed

lemma diamond_run:
  "generate_css_files_of_asset 3 example_world (client_of_table diamond_table None)
     (tag_stylesheet example_world) ''app.js'' None =
   Inr ([''<link rel=stylesheet href=base.css>'', ''<link rel=stylesheet href=left.css>'',
         ''<link rel=stylesheet href=right.css>'', ''<link rel=stylesheet href=app.css>''],
        [''base.css'', ''left.css'', ''right.css'', ''app.css''])"
proof -
  have "first_new [] [''base.css'', ''left.css'', ''base.css'', ''right.css'', ''app.css'', ''base.css'']
        = [''base.css'', ''left.css'', ''right.css'', ''app.css'']"
    by simp
  moreover have "tag_stylesheet example_world = (\<lambda>url. ''<link rel=stylesheet href='' @ url @ ''>'')"
    by (simp add: example_world_def)
  ultimately show ?thesis
    by (simp add: numeral_3_eq_3 generate_css_None diamond_app [of 0] example_url)
qed

section \<open>Claims about the CSS collection\<close>

text \<open>
  Claim C2. When the import edges reached from \<open>path\<close> form an acyclic graph and every
  path reached is a key of the (finite) table, \<^verbatim>\<open>_generate_css_files_of_asset\<close> called
  as the client calls it (no \<^verbatim>\<open>already_processed\<close>) returns, at every recursion depth
  the interpreter allows beyond some bound, one and the same result: so a second run on
  the same manifest yields the tag sequence of the first. With \<open>seq\<close> the CSS paths in
  depth-first import order (the imports, recursively and in list order, before the
  entry's own \<^verbatim>\<open>css\<close> list), the tags are those of the first encounters of \<open>seq\<close>, in
  that order: every path of \<open>seq\<close> has exactly one tag, at the place where it is met
  first.
\<close>

theorem css_files_of_asset_first_encounters:
  assumes "finite (dom (entries (manifest self)))"
    and "imports_acyclic_from (entries (manifest self)) path"
    and "imports_present_from (entries (manifest self)) path"
  shows "\<exists>seq N. css_in_import_order (entries (manifest self)) path seq \<and>
           distinct (first_encounters seq) \<and> set (first_encounters seq) = set seq \<and>
           (\<forall>depth\<ge>N. generate_css_files_of_asset depth w self tag_generator path None =
              Inr (map (\<lambda>css_path. tag_generator (get_production_server_url w self css_path))
                     (first_encounters seq),
                   first_encounters seq))"
proof -
  from assms obtain seq where seq: "css_in_import_order (entries (manifest self)) path seq"
    using css_order_exists by blast
  from generate_css_correct [OF seq, of w tag_generator] obtain N where
    "\<forall>depth\<ge>N. \<forall>ap. generate_css_files_of_asset depth w self tag_generator path (Some ap) =
        Inr (map (\<lambda>c. tag_generator (get_production_server_url w self c)) (first_new ap seq),
             ap @ first_new ap seq)"
    by blast
  then have "\<forall>depth\<ge>N. generate_css_files_of_asset depth w self tag_generator path None =
        Inr (map (\<lambda>c. tag_generator (get_production_server_url w self c)) (first_encounters seq),
             first_encounters seq)"
    by (simp add: generate_css_None first_encounters_eq)
  with seq distinct_first_encounters [of seq] set_first_encounters [of seq] show ?thesis
    by blast
qed

theorem css_files_of_asset_first_encounters_witness:
  "finite (dom (entries (manifest (client_of_table diamond_table None)))) \<and>
   imports_acyclic_from (entries (manifest (client_of_table diamond_table None))) ''app.js'' \<and>
   imports_present_from (entries (manifest (client_of_table diamond_table None))) ''app.js'' \<and>
   (\<exists>seq N. css_in_import_order (entries (manifest (client_of_table diamond_table None))) ''app.js'' seq \<and>
      distinct (first_encounters seq) \<and> set (first_encounters seq) = set seq \<and>
      (\<forall>depth\<ge>N. generate_css_files_of_asset depth example_world (client_of_table diamond_table None)
           (tag_stylesheet example_world) ''app.js'' None =
         Inr (map (\<lambda>css_path. tag_stylesheet example_world
                     (get_production_server_url example_world (client_of_table diamond_table None) css_path))
                (first_encounters seq),
              first_encounters seq))) \<and>
   generate_css_files_of_asset 3 example_world (client_of_table diamond_table None)
     (tag_stylesheet example_world) ''app.js'' None =
   Inr ([''<link rel=stylesheet href=base.css>'', ''<link rel=stylesheet href=left.css>'',
         ''<link rel=stylesheet href=right.css>'', ''<link rel=stylesheet href=app.css>''],
        [''base.css'', ''left.css'', ''right.css'', ''app.css''])"
proof -
  have h1: "finite (dom (entries (manifest (client_of_table diamond_table None))))"
    by (simp only: client_of_table_entries diamond_finite)
  have h2: "imports_acyclic_from (entries (manifest (client_of_table diamond_table None))) ''app.js''"
    by (simp only: client_of_table_entries diamond_acyclic)
  have h3: "imports_present_from (entries (manifest (client_of_table diamond_table None))) ''app.js''"
    by (simp only: client_of_table_entries diamond_present)
  note concl = css_files_of_asset_first_encounters
                 [OF h1 h2 h3, of example_world "tag_stylesheet example_world"]
  from h1 h2 h3 concl diamond_run show ?thesis
    by (intro conjI)
qed

section \<open>Claims about the tags of an asset\<close>

lemma preload_imports_eq:
  assumes "set ds \<subseteq> dom (entries (manifest self))"
  shows "preload_imports w self a ds =
           Inr (map (\<lambda>d. tag_preload w
                  (get_production_server_url w self (entry_file (the (entries (manifest self) d)))) a) ds)"
  using assms by (induction ds) (auto simp: ManifestClient_get_def)

lemma direct_imports_present:
  assumes "imports_present_from t path" and "t path = Some e"
  shows "set (entry_imports e) \<subseteq> dom t"
proof
  fix d assume "d \<in> set (entry_imports e)"
  with assms(2) have "(path, d) \<in> import_edges t" by (auto simp: import_edges_def)
  then have "(path, d) \<in> (import_edges t)\<^sup>*" by blast
  with assms(1) show "d \<in> dom t" by (simp add: imports_present_from_def)
qed

lemma default_not_serving: "vite_is_serving w DjangoViteConfig_default = Inr False"
  by (simp add: vite_is_serving_def DjangoViteConfig_default_def)

lemma client_of_table_config: "client_config (client_of_table t lpe) = DjangoViteConfig_default"
  by (simp add: client_of_table_def)

lemma load_css_files_result:
  assumes "finite (dom (entries (manifest self)))"
    and "imports_acyclic_from (entries (manifest self)) path"
    and "imports_present_from (entries (manifest self)) path"
  shows "\<exists>seq N. css_in_import_order (entries (manifest self)) path seq \<and>
           (\<forall>depth\<ge>N. load_css_files_of_asset depth w self path =
              Inr (map (\<lambda>css_path. tag_stylesheet w (get_production_server_url w self css_path))
                     (first_encounters seq)))"
proof -
  from assms obtain seq where seq: "css_in_import_order (entries (manifest self)) path seq"
    using css_order_exists by blast
  from generate_css_correct [OF seq, of w "tag_stylesheet w"] obtain N where
    "\<forall>depth\<ge>N. \<forall>ap. generate_css_files_of_asset depth w self (tag_stylesheet w) path (Some ap) =
        Inr (map (\<lambda>c. tag_stylesheet w (get_production_server_url w self c)) (first_new ap seq),
             ap @ first_new ap seq)"
    by blast
  then have "\<forall>depth\<ge>N. load_css_files_of_asset depth w self path =
        Inr (map (\<lambda>c. tag_stylesheet w (get_production_server_url w self c)) (first_encounters seq))"
    by (simp add: load_css_files_of_asset_def generate_css_None first_encounters_eq)
  with seq show ?thesis by blast
qed

text \<open>
  Claim C1, amended. In production mode (the probe does not report a live server), for a
  finite table in which the import edges reached from \<open>path\<close> are acyclic and every path
  reached is a key, \<^verbatim>\<open>generate_vite_asset\<close> returns, at every recursion depth beyond some
  bound, the lines: first the stylesheet tags of the CSS paths met in depth-first import
  order, each once at its first encounter; then one script tag for the file of the entry;
  then one preload tag for the file of each path of the entry's own \<^verbatim>\<open>imports\<close> list, in
  list order and one level only.
\<close>

theorem generate_vite_asset_tag_order:
  assumes "finite (dom (entries (manifest self)))"
    and "imports_acyclic_from (entries (manifest self)) path"
    and "imports_present_from (entries (manifest self)) path"
    and "vite_is_serving w (client_config self) = Inr False"
  shows "\<exists>e seq N. entries (manifest self) path = Some e \<and>
           css_in_import_order (entries (manifest self)) path seq \<and>
           (\<forall>depth\<ge>N. generate_vite_asset depth w self path kwargs =
              Inr (join_lines
                (map (\<lambda>css_path. tag_stylesheet w (get_production_server_url w self css_path))
                   (first_encounters seq) @
                 [tag_script w (get_production_server_url w self (entry_file e))
                    (dict_merge [(''type'', ''module''), (''crossorigin'', '''')] kwargs)] @
                 map (\<lambda>dep. tag_preload w
                        (get_production_server_url w self
                           (entry_file (the (entries (manifest self) dep))))
                        modulepreload_attrs)
                   (entry_imports e))))"
proof -
  have "path \<in> dom (entries (manifest self))"
    using assms(3) by (simp add: imports_present_from_def)
  then obtain e where e: "entries (manifest self) path = Some e" by blast
  from load_css_files_result [OF assms(1-3), of w] obtain seq N where
    seq: "css_in_import_order (entries (manifest self)) path seq" and
    N: "\<forall>depth\<ge>N. load_css_files_of_asset depth w self path =
          Inr (map (\<lambda>c. tag_stylesheet w (get_production_server_url w self c)) (first_encounters seq))"
    by blast
  have pre: "preload_imports w self modulepreload_attrs (entry_imports e) =
          Inr (map (\<lambda>d. tag_preload w
                 (get_production_server_url w self (entry_file (the (entries (manifest self) d))))
                 modulepreload_attrs) (entry_imports e))"
    using direct_imports_present [OF assms(3) e] by (rule preload_imports_eq)
  have "\<forall>depth\<ge>N. generate_vite_asset depth w self path kwargs =
              Inr (join_lines
                (map (\<lambda>css_path. tag_stylesheet w (get_production_server_url w self css_path))
                   (first_encounters seq) @
                 [tag_script w (get_production_server_url w self (entry_file e))
                    (dict_merge [(''type'', ''module''), (''crossorigin'', '''')] kwargs)] @
                 map (\<lambda>dep. tag_preload w
                        (get_production_server_url w self
                           (entry_file (the (entries (manifest self) dep))))
                        modulepreload_attrs)
                   (entry_imports e)))"
    using N by (simp add: generate_vite_asset_def assms(4) ManifestClient_get_def e pre)
  with e seq show ?thesis by blast
qed

lemma example_lookup:
  "example_table ''main.js'' = Some main_entry"
  "example_table ''lib.js'' = Some lib_entry"
  by (simp_all add: example_table_def example_entries_def)

lemma example_finite: "finite (dom example_table)"
  by (simp add: example_table_def finite_dom_map_of)

lemma example_acyclic: "imports_acyclic_from example_table ''main.js''"
  unfolding example_table_def
  by (rule acyclic_from_rank [where rank = "\<lambda>p. if p = ''main.js'' then 1 else 0"])
     (simp add: example_entries_def main_entry_def lib_entry_def)

lemma example_present: "imports_present_from example_table ''main.js''"
  unfolding example_table_def
  by (rule present_from_closed) (simp_all add: example_entries_def main_entry_def lib_entry_def)

lemma example_lib:
  "generate_css_files_of_asset (Suc n) w (client_of_table example_table None) g ''lib.js'' (Some ap) =
     Inr (map (\<lambda>c. g (get_production_server_url w (client_of_table example_table None) c))
            (first_new ap [''lib.css'']), ap @ first_new ap [''lib.css''])"
proof -
  have e: "entries (manifest (client_of_table example_table None)) ''lib.js'' = Some lib_entry"
    by (simp only: client_of_table_entries example_lookup)
  have "list_all2 (\<lambda>d s. \<forall>ap. generate_css_files_of_asset n w (client_of_table example_table None) g d (Some ap) =
            Inr (map (\<lambda>c. g (get_production_server_url w (client_of_table example_table None) c)) (first_new ap s), ap @ first_new ap s))
          (entry_imports lib_entry) []"
    by (simp add: lib_entry_def)
  from generate_css_step [OF e this, of ap] show ?thesis
    by (simp add: lib_entry_def)
qed

lemma example_main:
  "generate_css_files_of_asset (Suc (Suc n)) w (client_of_table example_table None) g ''main.js'' (Some ap) =
     Inr (map (\<lambda>c. g (get_production_server_url w (client_of_table example_table None) c))
            (first_new ap [''lib.css'', ''main.css'']), ap @ first_new ap [''lib.css'', ''main.css''])"
proof -
  have e: "entries (manifest (client_of_table example_table None)) ''main.js'' = Some main_entry"
    by (simp only: client_of_table_entries example_lookup)
  have imp: "entry_imports main_entry = [''lib.js'']" and own: "css main_entry = [''main.css'']"
    by (simp_all add: main_entry_def)
  have "list_all2 (\<lambda>d s. \<forall>ap. generate_css_files_of_asset (Suc n) w (client_of_table example_table None) g d (Some ap) =
            Inr (map (\<lambda>c. g (get_production_server_url w (client_of_table example_table None) c)) (first_new ap s), ap @ first_new ap s))
          (entry_imports main_entry) [[''lib.css'']]"
    using example_lib [of n w g] by (simp add: imp)
  from generate_css_step [OF e this, of ap] show ?thesis
    by (simp add: own)
qed

lemma example_css_tags:
  "load_css_files_of_asset 2 example_world (client_of_table example_table None) ''main.js'' =
     Inr [''<link rel=stylesheet href=lib.css>'', ''<link rel=stylesheet href=main.css>'']"
proof -
  have "tag_stylesheet example_world = (\<lambda>url. ''<link rel=stylesheet href='' @ url @ ''>'')"
    by (simp add: example_world_def)
  then show ?thesis
    by (simp add: load_css_files_of_asset_def numeral_2_eq_2 generate_css_None example_main [of 0]
          example_url)
qed

lemma example_generate:
  "generate_vite_asset 2 example_world (client_of_table example_table None) ''main.js'' [] =
     Inr (''<link rel=stylesheet href=lib.css>'' @ [CHR 0x0A] @
          ''<link rel=stylesheet href=main.css>'' @ [CHR 0x0A] @
          ''<script src=main.abc123.js>'' @ [CHR 0x0A] @
          ''<link rel=modulepreload href=lib.def456.js>'')"
proof -
  have script: "tag_script example_world url a = ''<script src='' @ url @ ''>''" for url a
    by (simp add: example_world_def)
  have preload: "tag_preload example_world url a = ''<link rel=modulepreload href='' @ url @ ''>''"
    for url a
    by (simp add: example_world_def)
  have imp: "entry_imports main_entry = [''lib.js'']" and f: "entry_file main_entry = ''main.abc123.js''"
    by (simp_all add: main_entry_def)
  have g: "entry_file lib_entry = ''lib.def456.js''"
    by (simp add: lib_entry_def)
  show ?thesis
    by (simp add: generate_vite_asset_def client_of_table_config default_not_serving
          ManifestClient_get_def client_of_table_entries example_lookup example_css_tags
          imp f g example_url script preload)
qed

lemma cyclic_walk:
  "generate_css_files_of_asset depth w (client_of_table cyclic_table None) g ''a.js'' ap =
     Inl RecursionError"
proof (induction depth arbitrary: ap)
  case 0
  show ?case by (simp add: generate_css_files_of_asset.simps)
next
  case (Suc depth)
  have e: "ManifestClient_get (manifest (client_of_table cyclic_table None)) ''a.js'' = Inr cyclic_entry"
    by (simp add: ManifestClient_get_def client_of_table_entries cyclic_table_def)
  have imp: "entry_imports cyclic_entry = [''a.js'']"
    by (simp add: cyclic_entry_def)
  show ?case
    by (simp add: generate_css_files_of_asset.simps e imp Suc.IH)
qed

lemma cyclic_present: "imports_present_from cyclic_table ''a.js''"
  unfolding cyclic_table_def
  by (rule present_from_closed) (simp_all add: cyclic_entry_def)

text \<open>
  The claim as first stated asks only that the paths reached are keys. An entry that
  imports itself meets that, and the walk over its imports never returns: at every
  recursion depth the call ends in \<^verbatim>\<open>RecursionError\<close>.
\<close>

theorem generate_vite_asset_cycle_counterexample:
  "imports_present_from (entries (manifest (client_of_table cyclic_table None))) ''a.js'' \<and>
   vite_is_serving example_world (client_config (client_of_table cyclic_table None)) = Inr False \<and>
   (\<forall>depth. generate_vite_asset depth example_world (client_of_table cyclic_table None) ''a.js'' [] =
      Inl RecursionError)"
proof -
  have e: "ManifestClient_get (manifest (client_of_table cyclic_table None)) ''a.js'' = Inr cyclic_entry"
    by (simp add: ManifestClient_get_def client_of_table_entries cyclic_table_def)
  have "generate_vite_asset depth example_world (client_of_table cyclic_table None) ''a.js'' [] =
      Inl RecursionError" for depth
    by (simp add: generate_vite_asset_def client_of_table_config default_not_serving e
          load_css_files_of_asset_def cyclic_walk)
  then show ?thesis
    by (simp add: client_of_table_entries cyclic_present client_of_table_config default_not_serving)
qed

text \<open>
  The manifest of the specification's example: the stylesheet tag of \<^verbatim>\<open>lib.css\<close>, that of
  \<^verbatim>\<open>main.css\<close>, the script tag of \<^verbatim>\<open>main.abc123.js\<close>, the preload tag of
  \<^verbatim>\<open>lib.def456.js\<close>.
\<close>

theorem generate_vite_asset_tag_order_witness:
  "finite (dom (entries (manifest (client_of_table example_table None)))) \<and>
   imports_acyclic_from (entries (manifest (client_of_table example_table None))) ''main.js'' \<and>
   imports_present_from (entries (manifest (client_of_table example_table None))) ''main.js'' \<and>
   vite_is_serving example_world (client_config (client_of_table example_table None)) = Inr False \<and>
   (\<exists>e seq N. entries (manifest (client_of_table example_table None)) ''main.js'' = Some e \<and>
      css_in_import_order (entries (manifest (client_of_table example_table None))) ''main.js'' seq \<and>
      (\<forall>depth\<ge>N. generate_vite_asset depth example_world (client_of_table example_table None) ''main.js'' [] =
         Inr (join_lines
           (map (\<lambda>css_path. tag_stylesheet example_world
                   (get_production_server_url example_world (client_of_table example_table None) css_path))
              (first_encounters seq) @
            [tag_script example_world
               (get_production_server_url example_world (client_of_table example_table None) (entry_file e))
               (dict_merge [(''type'', ''module''), (''crossorigin'', '''')] [])] @
            map (\<lambda>dep. tag_preload example_world
                   (get_production_server_url example_world (client_of_table example_table None)
                      (entry_file (the (entries (manifest (client_of_table example_table None)) dep))))
                   modulepreload_attrs)
              (entry_imports e))))) \<and>
   generate_vite_asset 2 example_world (client_of_table example_table None) ''main.js'' [] =
     Inr (''<link rel=stylesheet href=lib.css>'' @ [CHR 0x0A] @
          ''<link rel=stylesheet href=main.css>'' @ [CHR 0x0A] @
          ''<script src=main.abc123.js>'' @ [CHR 0x0A] @
          ''<link rel=modulepreload href=lib.def456.js>'')"
proof -
  have h1: "finite (dom (entries (manifest (client_of_table example_table None))))"
    by (simp only: client_of_table_entries example_finite)
  have h2: "imports_acyclic_from (entries (manifest (client_of_table example_table None))) ''main.js''"
    by (simp only: client_of_table_entries example_acyclic)
  have h3: "imports_present_from (entries (manifest (client_of_table example_table None))) ''main.js''"
    by (simp only: client_of_table_entries example_present)
  have h4: "vite_is_serving example_world (client_config (client_of_table example_table None)) = Inr False"
    by (simp only: client_of_table_config default_not_serving)
  note concl = generate_vite_asset_tag_order [OF h1 h2 h3 h4, of "[]"]
  from h1 h2 h3 h4 concl example_generate show ?thesis
    by (intro conjI)
qed

section \<open>Claims about the dev-server probe and the live mode\<close>

lemma str_nat_digit: "n < 10 \<Longrightarrow> str_nat n = [digit_char n]"
  by (simp add: str_nat.simps)

lemma str_nat_more: "10 \<le> n \<Longrightarrow> str_nat n = str_nat (n div 10) @ [digit_char n]"
  by (simp add: str_nat.simps)

lemma str_int_5173: "str_int 5173 = ''5173''"
  by (simp add: str_int_def str_nat_more str_nat_digit digit_char_def)

lemma dev_world_serving: "vite_is_serving dev_world dev_config = Inr True"
  by (simp add: vite_is_serving_def vite_webserver_url_def dev_config_def dev_world_def
        example_world_def DjangoViteConfig_default_def str_int_5173)

text \<open>
  Claim C4 says the probe requests the URL built from the configured protocol, host and
  port. The source builds it from \<^verbatim>\<open>"http://"\<close>, the host and the port, whatever
  \<^verbatim>\<open>dev_server_protocol\<close> is, while \<^verbatim>\<open>_get_dev_server_url\<close> does use the protocol. For
  a dev-mode configuration with protocol \<^verbatim>\<open>https\<close> and a server that answers 404 at
  \<^verbatim>\<open>https://localhost:5173/\<close> only, the probe asks \<^verbatim>\<open>http://localhost:5173/\<close> and
  returns false, and the asset URLs of the same client start with \<^verbatim>\<open>https://\<close>.
\<close>

theorem probe_ignores_dev_server_protocol:
  "dev_mode https_config \<and> dev_server_protocol https_config = ''https'' \<and>
   vite_webserver_url https_config = ''http://localhost:5173/'' \<and>
   session_get https_world ''https://localhost:5173/'' = Response 404 \<and>
   vite_is_serving https_world https_config = Inr False \<and>
   get_dev_server_url https_world https_client ''main.js'' = ''https://localhost:5173/main.js''"
  by (simp add: vite_is_serving_def vite_webserver_url_def https_config_def https_world_def
        example_world_def DjangoViteConfig_default_def str_int_5173 get_dev_server_url_def
        https_client_def endswith_slash_def)

text \<open>
  Claim C5. When the probe reports the dev server live, whatever the client's
  \<^verbatim>\<open>ManifestClient\<close> is (here \<open>m\<close>, any table, parsed or not), \<^verbatim>\<open>generate_vite_asset\<close>
  returns the one script tag of the dev-server URL, and \<^verbatim>\<open>preload_vite_asset\<close>,
  \<^verbatim>\<open>generate_vite_legacy_polyfills\<close> and \<^verbatim>\<open>generate_vite_legacy_asset\<close> return the empty
  string; none of the results depends on \<open>m\<close>, and none is an error. Constructing the
  client in that state gives an unparsed client at the location that
  \<^verbatim>\<open>_clean_manifest_path\<close> returns, whatever the manifest source holds, and raises what
  \<^verbatim>\<open>_clean_manifest_path\<close> raises.
\<close>

theorem live_server_never_reads_manifest:
  assumes "vite_is_serving w (client_config self) = Inr True"
  shows "generate_vite_asset depth w (self \<lparr> manifest := m \<rparr>) path kwargs =
           Inr (tag_script w (get_dev_server_url w self path)
                  (dict_merge [(''type'', ''module'')] kwargs)) \<and>
         preload_vite_asset depth w (self \<lparr> manifest := m \<rparr>) path = Inr '''' \<and>
         generate_vite_legacy_polyfills w (self \<lparr> manifest := m \<rparr>) kwargs = Inr '''' \<and>
         generate_vite_legacy_asset w (self \<lparr> manifest := m \<rparr>) path kwargs = Inr '''' \<and>
         DjangoViteAppClient_init w (client_config self) name =
           (case clean_manifest_path w (client_config self) of
              Inl e \<Rightarrow> Inl e
            | Inr location \<Rightarrow>
                Inr \<lparr> client_config = client_config self, client_app_name = name,
                      manifest = unparsed_client (client_config self) name True location \<rparr>)"
proof -
  have dm: "dev_mode (client_config self)"
    using assms by (auto simp: vite_is_serving_def split: if_splits)
  have url: "get_dev_server_url w (self \<lparr> manifest := m \<rparr>) path = get_dev_server_url w self path"
    by (simp add: get_dev_server_url_def)
  have init: "DjangoViteAppClient_init w (client_config self) name =
           (case clean_manifest_path w (client_config self) of
              Inl e \<Rightarrow> Inl e
            | Inr location \<Rightarrow>
                Inr \<lparr> client_config = client_config self, client_app_name = name,
                      manifest = unparsed_client (client_config self) name True location \<rparr>)"
    using assms dm
    by (simp add: DjangoViteAppClient_init_def ManifestClient_init_def unparsed_client_def Let_def
          split: sum.splits)
  have ops: "generate_vite_asset depth w (self \<lparr> manifest := m \<rparr>) path kwargs =
           Inr (tag_script w (get_dev_server_url w self path)
                  (dict_merge [(''type'', ''module'')] kwargs)) \<and>
         preload_vite_asset depth w (self \<lparr> manifest := m \<rparr>) path = Inr [] \<and>
         generate_vite_legacy_polyfills w (self \<lparr> manifest := m \<rparr>) kwargs = Inr [] \<and>
         generate_vite_legacy_asset w (self \<lparr> manifest := m \<rparr>) path kwargs = Inr []"
    using assms
    by (simp add: generate_vite_asset_def preload_vite_asset_def generate_vite_legacy_polyfills_def
          generate_vite_legacy_asset_def url)
  from ops init show ?thesis by simp
qed

theorem live_server_never_reads_manifest_witness:
  "vite_is_serving dev_world (client_config dev_client) = Inr True \<and>
   generate_vite_asset 0 dev_world (dev_client \<lparr> manifest := unparsed_client dev_config ''default'' True
                                    (PathLoc ''/static/manifest.json'') \<rparr>)
       ''main.js'' [] =
     Inr (tag_script dev_world (get_dev_server_url dev_world dev_client ''main.js'')
            (dict_merge [(''type'', ''module'')] [])) \<and>
   preload_vite_asset 0 dev_world (dev_client \<lparr> manifest := unparsed_client dev_config ''default'' True
                                    (PathLoc ''/static/manifest.json'') \<rparr>)
       ''main.js'' = Inr '''' \<and>
   generate_vite_legacy_polyfills dev_world
       (dev_client \<lparr> manifest := unparsed_client dev_config ''default'' True
                                    (PathLoc ''/static/manifest.json'') \<rparr>) [] = Inr '''' \<and>
   generate_vite_legacy_asset dev_world
       (dev_client \<lparr> manifest := unparsed_client dev_config ''default'' True
                                    (PathLoc ''/static/manifest.json'') \<rparr>) ''main.js'' [] = Inr '''' \<and>
   DjangoViteAppClient_init dev_world (client_config dev_client) ''default'' =
     Inr \<lparr> client_config = client_config dev_client, client_app_name = ''default'',
           manifest = unparsed_client (client_config dev_client) ''default'' True
                        (PathLoc ''/static/manifest.json'') \<rparr> \<and>
   tag_script dev_world (get_dev_server_url dev_world dev_client ''main.js'')
     (dict_merge [(''type'', ''module'')] []) = ''<script src=http://localhost:5173/main.js>''"
proof -
  have cfg: "client_config dev_client = dev_config"
    by (simp add: dev_client_def)
  have h: "vite_is_serving dev_world (client_config dev_client) = Inr True"
    by (simp only: cfg dev_world_serving)
  have tag: "tag_script dev_world (get_dev_server_url dev_world dev_client ''main.js'')
     (dict_merge [(''type'', ''module'')] []) = ''<script src=http://localhost:5173/main.js>''"
    by (simp add: get_dev_server_url_def cfg dev_config_def DjangoViteConfig_default_def
          dev_world_def example_world_def endswith_slash_def str_int_5173)
  have path: "clean_manifest_path dev_world (client_config dev_client) =
                Inr (PathLoc ''/static/manifest.json'')"
    by (simp add: clean_manifest_path_def cfg dev_config_def DjangoViteConfig_default_def
          dev_world_def example_world_def)
  note concl = live_server_never_reads_manifest
      [OF h, of 0 "unparsed_client dev_config ''default'' True (PathLoc ''/static/manifest.json'')"
         "''main.js''" "[]" "''default''"]
  from concl
  have built: "DjangoViteAppClient_init dev_world (client_config dev_client) ''default'' =
     Inr \<lparr> client_config = client_config dev_client, client_app_name = ''default'',
           manifest = unparsed_client (client_config dev_client) ''default'' True
                        (PathLoc ''/static/manifest.json'') \<rparr>"
    by (simp only: path sum.case)
  from h concl built tag show ?thesis
    by (intro conjI) (simp_all only: simp_thms)
qed

section \<open>The loop over the rows of the manifest\<close>

text \<open>The motif test is the substring test: \<open>motif\<close> is a contiguous part of \<open>path\<close>.\<close>

lemma str_contains_sublist: "str_contains motif path \<longleftrightarrow> sublist motif path"
  by (induction path) (simp_all add: sublist_Cons_right)

lemma missing_file_entry:
  "row_file row = None \<Longrightarrow>
   ManifestEntry_new (filtered_manifest_entry_data row) = Inl MissingFileArgument"
  by (simp add: ManifestEntry_new_def filtered_manifest_entry_data_def)

lemma parse_rows_Cons_Inr:
  assumes "parse_rows motif ((k, r) # rest) (es, lpe) = Inr out"
  obtains row e where "r = RowObject row"
    and "ManifestEntry_new (filtered_manifest_entry_data row) = Inr e"
    and "parse_rows motif rest (es(k \<mapsto> e), if str_contains motif k then Some e else lpe) = Inr out"
  using assms by (cases r) (auto split: sum.splits)

lemma parse_rows_untouched:
  assumes "parse_rows motif items (es, lpe) = Inr (es', lpe')" and "k \<notin> fst ` set items"
  shows "es' k = es k"
  using assms
proof (induction items arbitrary: es lpe)
  case Nil
  then show ?case by simp
next
  case (Cons item items)
  obtain k0 r where item: "item = (k0, r)" by (cases item)
  from Cons.prems(1) [unfolded item] obtain row e where
    rest: "parse_rows motif items (es(k0 \<mapsto> e), if str_contains motif k0 then Some e else lpe) =
             Inr (es', lpe')"
    by (rule parse_rows_Cons_Inr)
  from Cons.prems(2) item have "k \<noteq> k0" and "k \<notin> fst ` set items" by auto
  with Cons.IH [OF rest] show ?case by simp
qed

lemma parse_rows_entries:
  assumes "parse_rows motif items (es, lpe) = Inr (es', lpe')"
    and "distinct (map fst items)"
    and "(k, RowObject row) \<in> set items"
  shows "\<exists>e. ManifestEntry_new (filtered_manifest_entry_data row) = Inr e \<and> es' k = Some e"
  using assms
proof (induction items arbitrary: es lpe)
  case Nil
  then show ?case by simp
next
  case (Cons item items)
  obtain k0 r where item: "item = (k0, r)" by (cases item)
  from Cons.prems(1) [unfolded item] obtain row0 e0 where
    r: "r = RowObject row0" and
    e0: "ManifestEntry_new (filtered_manifest_entry_data row0) = Inr e0" and
    rest: "parse_rows motif items (es(k0 \<mapsto> e0), if str_contains motif k0 then Some e0 else lpe) =
             Inr (es', lpe')"
    by (rule parse_rows_Cons_Inr)
  from Cons.prems(2) item have fresh: "k0 \<notin> fst ` set items" and dist: "distinct (map fst items)"
    by auto
  show ?case
  proof (cases "(k, RowObject row) \<in> set items")
    case True
    with Cons.IH [OF rest dist] show ?thesis by blast
  next
    case False
    with Cons.prems(3) item r have "k = k0" and "row = row0" by auto
    moreover have "es' k0 = Some e0"
      using parse_rows_untouched [OF rest fresh] by simp
    ultimately show ?thesis using e0 by simp
  qed
qed

lemma motif_matches_Cons:
  "motif_matches motif ((k, r) # items) =
     (if str_contains motif k then [(k, r)] else []) @ motif_matches motif items"
  by (simp add: motif_matches_def)

lemma parse_rows_legacy:
  assumes "parse_rows motif items (es, lpe) = Inr (es', lpe')"
  shows "(motif_matches motif items = [] \<longrightarrow> lpe' = lpe) \<and>
         (motif_matches motif items \<noteq> [] \<longrightarrow>
            (\<exists>k row e. last (motif_matches motif items) = (k, RowObject row) \<and>
               ManifestEntry_new (filtered_manifest_entry_data row) = Inr e \<and> lpe' = Some e))"
  using assms
proof (induction items arbitrary: es lpe)
  case Nil
  then show ?case by (simp add: motif_matches_def)
next
  case (Cons item items)
  obtain k0 r where item: "item = (k0, r)" by (cases item)
  from Cons.prems(1) [unfolded item] obtain row0 e0 where
    r: "r = RowObject row0" and
    e0: "ManifestEntry_new (filtered_manifest_entry_data row0) = Inr e0" and
    rest: "parse_rows motif items (es(k0 \<mapsto> e0), if str_contains motif k0 then Some e0 else lpe) =
             Inr (es', lpe')"
    by (rule parse_rows_Cons_Inr)
  note IH = Cons.IH [OF rest]
  show ?case
  proof (cases "motif_matches motif items = []")
    case True
    with IH have "lpe' = (if str_contains motif k0 then Some e0 else lpe)" by simp
    with True e0 show ?thesis
      by (simp add: item r motif_matches_Cons)
  next
    case False
    with IH show ?thesis
      by (simp add: item motif_matches_Cons)
  qed
qed

lemma parse_rows_missing_file:
  assumes "(k, RowObject row) \<in> set items" and "row_file row = None"
  shows "\<exists>failure. parse_rows motif items acc = Inl failure"
  using assms(1)
proof (induction items arbitrary: acc)
  case Nil
  then show ?case by simp
next
  case (Cons item items)
  obtain k0 r where item: "item = (k0, r)" by (cases item)
  obtain es lpe where acc: "acc = (es, lpe)" by (cases acc)
  show ?case
  proof (cases r)
    case RowOther
    then show ?thesis by (simp add: item)
  next
    case (RowObject row0)
    show ?thesis
    proof (cases "ManifestEntry_new (filtered_manifest_entry_data row0)")
      case (Inl failure)
      then show ?thesis by (simp add: item RowObject acc)
    next
      case (Inr e0)
      have "(k, RowObject row) \<in> set items"
      proof (rule ccontr)
        assume "(k, RowObject row) \<notin> set items"
        with Cons.prems item RowObject have "row0 = row" by auto
        with Inr missing_file_entry [OF assms(2)] show False by simp
      qed
      from Cons.IH [OF this] show ?thesis by (simp add: item RowObject acc Inr)
    qed
  qed
qed

lemma finite_dom_parse_rows:
  assumes "parse_rows motif items (es, lpe) = Inr (es', lpe')" and "finite (dom es)"
  shows "finite (dom es')"
  using assms
proof (induction items arbitrary: es lpe)
  case Nil
  then show ?case by simp
next
  case (Cons item items)
  obtain k0 r where item: "item = (k0, r)" by (cases item)
  from Cons.prems(1) [unfolded item] obtain row e where
    rest: "parse_rows motif items (es(k0 \<mapsto> e), if str_contains motif k0 then Some e else lpe) =
             Inr (es', lpe')"
    by (rule parse_rows_Cons_Inr)
  from Cons.prems(2) have "finite (dom (es(k0 \<mapsto> e)))" by simp
  with Cons.IH [OF rest] show ?case .
qed

section \<open>Claims about the manifest client\<close>

lemma unparsed_client_sel [simp]:
  "manifest_config (unparsed_client config name dm path) = config"
  "app_name (unparsed_client config name dm path) = name"
  "client_dev_mode (unparsed_client config name dm path) = dm"
  "client_manifest_path (unparsed_client config name dm path) = path"
  "client_legacy_polyfills_motif (unparsed_client config name dm path) = legacy_polyfills_motif config"
  "entries (unparsed_client config name dm path) = Map.empty"
  "legacy_polyfills_entry (unparsed_client config name dm path) = None"
  by (simp_all add: unparsed_client_def)

lemma read_manifest_update [simp]:
  "read_manifest w (self \<lparr> entries := es, legacy_polyfills_entry := lpe \<rparr>) = read_manifest w self"
  by (simp add: read_manifest_def split: sum.splits manifest_json.splits)

lemma parse_manifest_production:
  "\<not> client_dev_mode self \<Longrightarrow>
   parse_manifest w self =
     (case read_manifest w self of
        Inl failure \<Rightarrow> Inl (DjangoViteManifestError (manifest_error_message self) failure)
      | Inr parsed \<Rightarrow> Inr parsed)"
  by (simp add: parse_manifest_def)

lemma ManifestClient_init_live:
  assumes "vite_is_serving w config = Inr True"
  shows "ManifestClient_init w config name =
           (case clean_manifest_path w config of
              Inl e \<Rightarrow> Inl e
            | Inr path \<Rightarrow> Inr (unparsed_client config name True path))"
proof -
  have "dev_mode config"
    using assms by (auto simp: vite_is_serving_def split: if_splits)
  with assms show ?thesis by (simp add: ManifestClient_init_def split: sum.splits)
qed

lemma ManifestClient_init_production:
  assumes "dev_mode config \<longrightarrow> vite_is_serving w config = Inr False"
  shows "ManifestClient_init w config name =
     (case clean_manifest_path w config of
        Inl e \<Rightarrow> Inl e
      | Inr path \<Rightarrow>
          Inr (case read_manifest w (unparsed_client config name False path) of
                 Inl failure \<Rightarrow> unparsed_client config name False path
               | Inr (es, lpe) \<Rightarrow>
                   (unparsed_client config name False path)
                     \<lparr> entries := es, legacy_polyfills_entry := lpe \<rparr>))"
  using assms
  by (cases "dev_mode config")
     (auto simp: ManifestClient_init_def parse_manifest_production split: sum.splits)

lemma ManifestClient_init_Inr:
  assumes "ManifestClient_init w config name = Inr self"
  shows "\<exists>path. clean_manifest_path w config = Inr path \<and>
          (self = unparsed_client config name True path \<or>
           (\<exists>failure. self = unparsed_client config name False path \<and>
              read_manifest w (unparsed_client config name False path) = Inl failure) \<or>
           (\<exists>es lpe. self = (unparsed_client config name False path)
                          \<lparr> entries := es, legacy_polyfills_entry := lpe \<rparr> \<and>
              read_manifest w (unparsed_client config name False path) = Inr (es, lpe)))"
proof (cases "dev_mode config \<longrightarrow> vite_is_serving w config = Inr False")
  case True
  from assms [unfolded ManifestClient_init_production [OF True]] show ?thesis
    by (auto split: sum.splits)
next
  case False
  then have dm: "dev_mode config" and ns: "vite_is_serving w config \<noteq> Inr False" by auto
  show ?thesis
  proof (cases "vite_is_serving w config")
    case (Inl e)
    with assms dm show ?thesis by (simp add: ManifestClient_init_def)
  next
    case (Inr b)
    with ns have "vite_is_serving w config = Inr True" by (cases b) auto
    from assms [unfolded ManifestClient_init_live [OF this]] show ?thesis
      by (auto split: sum.splits)
  qed
qed

lemma ManifestClient_init_path:
  assumes "ManifestClient_init w config name = Inr self"
  shows "clean_manifest_path w config = Inr (client_manifest_path self)" and "app_name self = name"
  using ManifestClient_init_Inr [OF assms] by auto

lemma not_found_when_absent:
  "entries self path = None \<Longrightarrow>
   ManifestClient_get self path =
     Inl (DjangoViteAssetNotFoundError
            (''Cannot find '' @ path @ '' for app='' @ app_name self @
             '' in Vite manifest at '' @ location_str (client_manifest_path self)))"
  by (simp add: ManifestClient_get_def)

text \<open>
  Claim C3. Let \<open>self\<close> be a constructed \<^verbatim>\<open>ManifestClient\<close>; its manifest path is the
  one \<^verbatim>\<open>_clean_manifest_path\<close> returned. If the manifest was never
  parsed because the client is in dev mode, \<^verbatim>\<open>get(path)\<close> raises
  \<^verbatim>\<open>DjangoViteAssetNotFoundError\<close> for every path. If the client is in production mode and
  the manifest document (an object with the items \<open>items\<close>, its keys distinct as in any
  \<^verbatim>\<open>dict\<close>) parses, then for every key \<^verbatim>\<open>get\<close> returns exactly the \<^verbatim>\<open>ManifestEntry\<close>
  built from the row of that key, and for every path that is no key it raises
  \<^verbatim>\<open>DjangoViteAssetNotFoundError\<close>. The message of the error names the path, the
  application name and the manifest path.
\<close>

theorem manifest_get_returns_parsed_entry:
  assumes "ManifestClient_init w config name = Inr self"
  shows "clean_manifest_path w config = Inr (client_manifest_path self) \<and>
         (client_dev_mode self \<longrightarrow>
            ManifestClient_get self path =
              Inl (DjangoViteAssetNotFoundError
                     (''Cannot find '' @ path @ '' for app='' @ name @
                      '' in Vite manifest at '' @ location_str (client_manifest_path self)))) \<and>
         (\<not> client_dev_mode self \<and>
          load_manifest_json w (client_manifest_path self) = Inr (DocObject items) \<and>
          distinct (map fst items) \<and> parse_manifest w self = Inr parsed \<longrightarrow>
            (\<forall>row. (path, RowObject row) \<in> set items \<longrightarrow>
               (\<exists>e. ManifestEntry_new (filtered_manifest_entry_data row) = Inr e \<and>
                    ManifestClient_get self path = Inr e)) \<and>
            (path \<notin> fst ` set items \<longrightarrow>
               ManifestClient_get self path =
                 Inl (DjangoViteAssetNotFoundError
                        (''Cannot find '' @ path @ '' for app='' @ name @
                         '' in Vite manifest at '' @ location_str (client_manifest_path self)))))"
proof (intro conjI impI)
  show "clean_manifest_path w config = Inr (client_manifest_path self)"
    by (rule ManifestClient_init_path [OF assms])
next
  assume "client_dev_mode self"
  with ManifestClient_init_Inr [OF assms] have "entries self path = None"
    by auto
  then show "ManifestClient_get self path =
              Inl (DjangoViteAssetNotFoundError
                     (''Cannot find '' @ path @ '' for app='' @ name @
                      '' in Vite manifest at '' @ location_str (client_manifest_path self)))"
    by (simp add: not_found_when_absent ManifestClient_init_path [OF assms])
next
  assume h: "\<not> client_dev_mode self \<and>
          load_manifest_json w (client_manifest_path self) = Inr (DocObject items) \<and>
          distinct (map fst items) \<and> parse_manifest w self = Inr parsed"
  then have read: "read_manifest w self = Inr parsed"
    by (auto simp: parse_manifest_production split: sum.splits)
  with ManifestClient_init_Inr [OF assms] h obtain loc es lpe where
    self: "self = (unparsed_client config name False loc)
                    \<lparr> entries := es, legacy_polyfills_entry := lpe \<rparr>" and
    read0: "read_manifest w (unparsed_client config name False loc) = Inr (es, lpe)"
    by auto
  from h self have "load_manifest_json w loc = Inr (DocObject items)"
    by simp
  with read0 have rows: "parse_rows (legacy_polyfills_motif config) items (Map.empty, None) = Inr (es, lpe)"
    by (simp add: read_manifest_def)
  from h have dist: "distinct (map fst items)" by simp
  show "\<forall>row. (path, RowObject row) \<in> set items \<longrightarrow>
               (\<exists>e. ManifestEntry_new (filtered_manifest_entry_data row) = Inr e \<and>
                    ManifestClient_get self path = Inr e)"
  proof (intro allI impI)
    fix row assume "(path, RowObject row) \<in> set items"
    from parse_rows_entries [OF rows dist this] obtain e where
      "ManifestEntry_new (filtered_manifest_entry_data row) = Inr e" and "es path = Some e"
      by blast
    then show "\<exists>e. ManifestEntry_new (filtered_manifest_entry_data row) = Inr e \<and>
                    ManifestClient_get self path = Inr e"
      by (simp add: self ManifestClient_get_def)
  qed
  assume "path \<notin> fst ` set items"
  from parse_rows_untouched [OF rows this] have "entries self path = None"
    by (simp add: self)
  then show "ManifestClient_get self path =
                 Inl (DjangoViteAssetNotFoundError
                        (''Cannot find '' @ path @ '' for app='' @ name @
                         '' in Vite manifest at '' @ location_str (client_manifest_path self)))"
    by (simp add: not_found_when_absent ManifestClient_init_path [OF assms])
qed

subsection \<open>The example worlds\<close>

lemma default_config_sel:
  "dev_mode DjangoViteConfig_default = False"
  "legacy_polyfills_motif DjangoViteConfig_default = ''legacy-polyfills''"
  "manifest_path DjangoViteConfig_default = None"
  "static_url_prefix DjangoViteConfig_default = ''''"
  by (simp_all add: DjangoViteConfig_default_def)


lemma manifest_world_path:
  "clean_manifest_path (manifest_world items) DjangoViteConfig_default =
     Inr (PathLoc ''/static/manifest.json'')"
  by (simp add: clean_manifest_path_def default_config_sel manifest_world_def example_world_def)

lemma manifest_world_load:
  "load_manifest_json (manifest_world items) (PathLoc ''/static/manifest.json'') =
     Inr (DocObject items)"
  by (simp add: load_manifest_json_def open_manifest_def manifest_world_def example_world_def)


lemma manifest_world_init:
  assumes "parse_rows ''legacy-polyfills'' items (Map.empty, None) = Inr (es, lpe)"
  shows "ManifestClient_init (manifest_world items) DjangoViteConfig_default ''default'' =
           Inr ((unparsed_client DjangoViteConfig_default ''default'' False
             (PathLoc ''/static/manifest.json''))
                  \<lparr> entries := es, legacy_polyfills_entry := lpe \<rparr>)"
proof -
  have "read_manifest (manifest_world items)
          (unparsed_client DjangoViteConfig_default ''default'' False
             (PathLoc ''/static/manifest.json'')) =
        Inr (es, lpe)"
    by (simp add: read_manifest_def manifest_world_path manifest_world_load default_config_sel assms)
  then show ?thesis
    by (simp add: ManifestClient_init_production default_config_sel manifest_world_path)
qed

lemma manifest_world_parse:
  assumes "parse_rows ''legacy-polyfills'' items (Map.empty, None) = Inr (es, lpe)"
  shows "parse_manifest (manifest_world items)
           ((unparsed_client DjangoViteConfig_default ''default'' False
             (PathLoc ''/static/manifest.json''))
                  \<lparr> entries := es, legacy_polyfills_entry := lpe \<rparr>) = Inr (es, lpe)"
  by (simp add: parse_manifest_production read_manifest_def manifest_world_path manifest_world_load
        default_config_sel assms)

lemma example_row_entries:
  "ManifestEntry_new (filtered_manifest_entry_data main_row) = Inr main_entry"
  "ManifestEntry_new (filtered_manifest_entry_data lib_row) = Inr lib_entry"
  by (simp_all add: ManifestEntry_new_def filtered_manifest_entry_data_def main_row_def lib_row_def
        empty_row_def main_entry_def lib_entry_def)

lemma example_no_motif:
  "\<not> str_contains ''legacy-polyfills'' ''main.js''"
  "\<not> str_contains ''legacy-polyfills'' ''lib.js''"
  by simp_all

lemma example_rows:
  "parse_rows ''legacy-polyfills'' example_items (Map.empty, None) =
     Inr ([''main.js'' \<mapsto> main_entry, ''lib.js'' \<mapsto> lib_entry], None)"
  by (simp add: example_items_def example_row_entries example_no_motif)

text \<open>
  The example manifest at the default location: \<^verbatim>\<open>get("main.js")\<close> is the entry of the
  row, \<^verbatim>\<open>get("missing.js")\<close> raises. A client built while the dev server is up has no
  entry at all.
\<close>

theorem manifest_get_returns_parsed_entry_witness:
  "(\<exists>self parsed.
      ManifestClient_init (manifest_world example_items) DjangoViteConfig_default ''default'' = Inr self \<and>
      \<not> client_dev_mode self \<and>
      load_manifest_json (manifest_world example_items) (client_manifest_path self) =
        Inr (DocObject example_items) \<and>
      distinct (map fst example_items) \<and>
      parse_manifest (manifest_world example_items) self = Inr parsed \<and>
      ManifestClient_get self ''main.js'' = Inr main_entry \<and>
      ManifestClient_get self ''missing.js'' =
        Inl (DjangoViteAssetNotFoundError
               ''Cannot find missing.js for app=default in Vite manifest at /static/manifest.json'')) \<and>
   (\<exists>self.
      ManifestClient_init dev_world dev_config ''default'' = Inr self \<and> client_dev_mode self \<and>
      ManifestClient_get self ''main.js'' =
        Inl (DjangoViteAssetNotFoundError
               ''Cannot find main.js for app=default in Vite manifest at /static/manifest.json''))"
proof (rule conjI)
  let ?w = "manifest_world example_items"
  let ?es = "[''main.js'' \<mapsto> main_entry, ''lib.js'' \<mapsto> lib_entry]"
  define self where
    "self = (unparsed_client DjangoViteConfig_default ''default'' False
               (PathLoc ''/static/manifest.json''))
              \<lparr> entries := ?es, legacy_polyfills_entry := None \<rparr>"
  have init: "ManifestClient_init ?w DjangoViteConfig_default ''default'' = Inr self"
    unfolding self_def by (rule manifest_world_init [OF example_rows])
  have prod: "\<not> client_dev_mode self" by (simp add: self_def)
  have load: "load_manifest_json ?w (client_manifest_path self) = Inr (DocObject example_items)"
    by (simp add: self_def manifest_world_load)
  have dist: "distinct (map fst example_items)" by (simp add: example_items_def)
  have parse: "parse_manifest ?w self = Inr (?es, None)"
    unfolding self_def by (rule manifest_world_parse [OF example_rows])
  have main: "(''main.js'', RowObject main_row) \<in> set example_items"
    and missing: "''missing.js'' \<notin> fst ` set example_items"
    by (simp_all add: example_items_def)
  from manifest_get_returns_parsed_entry [OF init, of "''main.js''" example_items "(?es, None)"]
    prod load dist parse main
  have "\<exists>e. ManifestEntry_new (filtered_manifest_entry_data main_row) = Inr e \<and>
             ManifestClient_get self ''main.js'' = Inr e"
    by blast
  then have get_main: "ManifestClient_get self ''main.js'' = Inr main_entry"
    by (simp add: example_row_entries)
  from manifest_get_returns_parsed_entry [OF init, of "''missing.js''" example_items "(?es, None)"]
    prod load dist parse missing
  have "ManifestClient_get self ''missing.js'' =
          Inl (DjangoViteAssetNotFoundError
                 (''Cannot find '' @ ''missing.js'' @ '' for app='' @ ''default'' @
                  '' in Vite manifest at '' @ location_str (client_manifest_path self)))"
    by blast
  then have get_missing: "ManifestClient_get self ''missing.js'' =
        Inl (DjangoViteAssetNotFoundError
               ''Cannot find missing.js for app=default in Vite manifest at /static/manifest.json'')"
    by (simp add: self_def)
  from init prod load dist parse get_main get_missing
  show "\<exists>self parsed.
      ManifestClient_init ?w DjangoViteConfig_default ''default'' = Inr self \<and>
      \<not> client_dev_mode self \<and>
      load_manifest_json ?w (client_manifest_path self) = Inr (DocObject example_items) \<and>
      distinct (map fst example_items) \<and>
      parse_manifest ?w self = Inr parsed \<and>
      ManifestClient_get self ''main.js'' = Inr main_entry \<and>
      ManifestClient_get self ''missing.js'' =
        Inl (DjangoViteAssetNotFoundError
               ''Cannot find missing.js for app=default in Vite manifest at /static/manifest.json'')"
    by blast
next
  define self where
    "self = unparsed_client dev_config ''default'' True (PathLoc ''/static/manifest.json'')"
  have path: "clean_manifest_path dev_world dev_config = Inr (PathLoc ''/static/manifest.json'')"
    by (simp add: clean_manifest_path_def dev_config_def default_config_sel dev_world_def
          example_world_def)
  have init: "ManifestClient_init dev_world dev_config ''default'' = Inr self"
    unfolding self_def by (simp add: ManifestClient_init_live [OF dev_world_serving] path)
  have dm: "client_dev_mode self" by (simp add: self_def)
  from manifest_get_returns_parsed_entry [OF init, of "''main.js''"] dm
  have "ManifestClient_get self ''main.js'' =
          Inl (DjangoViteAssetNotFoundError
                 (''Cannot find '' @ ''main.js'' @ '' for app='' @ ''default'' @
                  '' in Vite manifest at '' @ location_str (client_manifest_path self)))"
    by blast
  then have "ManifestClient_get self ''main.js'' =
        Inl (DjangoViteAssetNotFoundError
               ''Cannot find main.js for app=default in Vite manifest at /static/manifest.json'')"
    by (simp add: self_def)
  with init dm show "\<exists>self.
      ManifestClient_init dev_world dev_config ''default'' = Inr self \<and> client_dev_mode self \<and>
      ManifestClient_get self ''main.js'' =
        Inl (DjangoViteAssetNotFoundError
               ''Cannot find main.js for app=default in Vite manifest at /static/manifest.json'')"
    by blast
qed

subsection \<open>A manifest that cannot be parsed\<close>






text \<open>
  Claim C10. When the manifest document, loaded from the location that
  \<^verbatim>\<open>_clean_manifest_path\<close> returns, is an object and one of its rows is an object
  that, once the fields outside the schema are dropped, has no \<^verbatim>\<open>file\<close>, the whole parse
  raises \<^verbatim>\<open>DjangoViteManifestError\<close>; the constructed client keeps no entry of the
  document, so \<^verbatim>\<open>get\<close> raises for every path, those of the well-formed rows too.
\<close>

theorem row_without_file_empties_table:
  assumes "\<not> dev_mode config \<or> vite_is_serving w config = Inr False"
    and "clean_manifest_path w config = Inr location"
    and "load_manifest_json w location = Inr (DocObject items)"
    and "(key, RowObject row) \<in> set items"
    and "row_file (filtered_manifest_entry_data row) = None"
  shows "\<exists>self. ManifestClient_init w config name = Inr self \<and>
           (\<exists>message failure. parse_manifest w self = Inl (DjangoViteManifestError message failure)) \<and>
           entries self = Map.empty \<and>
           (\<forall>path. \<exists>message. ManifestClient_get self path =
                       Inl (DjangoViteAssetNotFoundError message))"
proof -
  let ?self = "unparsed_client config name False location"
  have off: "dev_mode config \<longrightarrow> vite_is_serving w config = Inr False"
    using assms(1) by blast
  have "row_file row = None"
    using assms(5) by (simp add: filtered_manifest_entry_data_def)
  from parse_rows_missing_file [OF assms(4) this] obtain failure where
    "parse_rows (legacy_polyfills_motif config) items (Map.empty, None) = Inl failure"
    by blast
  then have read: "read_manifest w ?self = Inl failure"
    by (simp add: read_manifest_def assms(3))
  have init: "ManifestClient_init w config name = Inr ?self"
    by (simp add: ManifestClient_init_production [OF off] assms(2) read)
  have parse: "parse_manifest w ?self =
                 Inl (DjangoViteManifestError (manifest_error_message ?self) failure)"
    by (simp add: parse_manifest_production read)
  have get: "\<forall>path. \<exists>message. ManifestClient_get ?self path =
                       Inl (DjangoViteAssetNotFoundError message)"
    by (simp add: not_found_when_absent)
  from init parse get show ?thesis
    by (intro exI [of _ ?self]) simp
qed

lemma broken_row:
  "(''broken.js'', RowObject (empty_row \<lparr> row_src := Some ''broken.js'' \<rparr>)) \<in> set broken_items"
  "row_file (filtered_manifest_entry_data (empty_row \<lparr> row_src := Some ''broken.js'' \<rparr>)) = None"
  "(''main.js'', RowObject main_row) \<in> set broken_items"
  by (simp_all add: broken_items_def filtered_manifest_entry_data_def empty_row_def)

theorem row_without_file_empties_table_witness:
  "\<not> dev_mode DjangoViteConfig_default \<and>
   clean_manifest_path (manifest_world broken_items) DjangoViteConfig_default =
     Inr (PathLoc ''/static/manifest.json'') \<and>
   load_manifest_json (manifest_world broken_items) (PathLoc ''/static/manifest.json'') =
     Inr (DocObject broken_items) \<and>
   (''broken.js'', RowObject (empty_row \<lparr> row_src := Some ''broken.js'' \<rparr>)) \<in> set broken_items \<and>
   row_file (filtered_manifest_entry_data (empty_row \<lparr> row_src := Some ''broken.js'' \<rparr>)) = None \<and>
   (''main.js'', RowObject main_row) \<in> set broken_items \<and>
   (\<exists>self. ManifestClient_init (manifest_world broken_items) DjangoViteConfig_default ''default'' =
             Inr self \<and>
           (\<exists>message failure. parse_manifest (manifest_world broken_items) self =
                                  Inl (DjangoViteManifestError message failure)) \<and>
           entries self = Map.empty \<and>
           (\<forall>path. \<exists>message. ManifestClient_get self path =
                       Inl (DjangoViteAssetNotFoundError message)))"
proof -
  have h1: "\<not> dev_mode DjangoViteConfig_default"
    by (simp add: default_config_sel)
  then have h1': "\<not> dev_mode DjangoViteConfig_default \<or>
                  vite_is_serving (manifest_world broken_items) DjangoViteConfig_default = Inr False"
    by (rule disjI1)
  note h2 = manifest_world_path [of broken_items]
  note h3 = manifest_world_load [of broken_items]
  from h1 h2 h3 broken_row
    row_without_file_empties_table [OF h1' h2 h3 broken_row(1) broken_row(2), of "''default''"]
  show ?thesis by (intro conjI)
qed

subsection \<open>The legacy polyfills entry\<close>

lemma DjangoViteAppClient_init_Inr:
  assumes "DjangoViteAppClient_init w config name = Inr client"
  shows "ManifestClient_init w config name = Inr (manifest client) \<and> client_config client = config \<and>
         client_app_name client = name"
  using assms by (auto simp: DjangoViteAppClient_init_def split: sum.splits)

lemma legacy_entry_after_init:
  assumes "ManifestClient_init w config name = Inr self"
    and "\<not> client_dev_mode self"
    and "load_manifest_json w (client_manifest_path self) = Inr (DocObject items)"
    and "parse_manifest w self = Inr parsed"
  shows "(motif_matches (legacy_polyfills_motif config) items = [] \<longrightarrow>
            legacy_polyfills_entry self = None) \<and>
         (motif_matches (legacy_polyfills_motif config) items \<noteq> [] \<longrightarrow>
            (\<exists>key row e. last (motif_matches (legacy_polyfills_motif config) items) = (key, RowObject row) \<and>
               ManifestEntry_new (filtered_manifest_entry_data row) = Inr e \<and>
               legacy_polyfills_entry self = Some e))"
proof -
  from assms(2,4) have read: "read_manifest w self = Inr parsed"
    by (auto simp: parse_manifest_production split: sum.splits)
  with ManifestClient_init_Inr [OF assms(1)] assms(2) obtain loc es lpe where
    self: "self = (unparsed_client config name False loc)
                    \<lparr> entries := es, legacy_polyfills_entry := lpe \<rparr>" and
    read0: "read_manifest w (unparsed_client config name False loc) = Inr (es, lpe)"
    by auto
  from assms(3) self have "load_manifest_json w loc = Inr (DocObject items)"
    by simp
  with read0 have "parse_rows (legacy_polyfills_motif config) items (Map.empty, None) = Inr (es, lpe)"
    by (simp add: read_manifest_def)
  from parse_rows_legacy [OF this] show ?thesis
    by (simp add: self)
qed

text \<open>
  Claim C6. For a production client, its manifest path the one
  \<^verbatim>\<open>_clean_manifest_path\<close> returned, whose manifest document parsed: if exactly one key
  contains the polyfills motif, \<^verbatim>\<open>legacy_polyfills_entry\<close> is the entry of that key; if
  several keys do, it is the entry of the last of them in the key order of the
  document; if none does, it is \<^verbatim>\<open>None\<close>, and \<^verbatim>\<open>generate_vite_legacy_polyfills\<close> in
  production mode raises \<^verbatim>\<open>DjangoViteAssetNotFoundError\<close>.
\<close>

theorem legacy_polyfills_entry_detection:
  assumes "DjangoViteAppClient_init w config name = Inr client"
    and "\<not> client_dev_mode (manifest client)"
    and "load_manifest_json w (client_manifest_path (manifest client)) = Inr (DocObject items)"
    and "parse_manifest w (manifest client) = Inr parsed"
  shows "clean_manifest_path w config = Inr (client_manifest_path (manifest client)) \<and>
         (\<forall>key row. motif_matches (legacy_polyfills_motif config) items = [(key, RowObject row)] \<longrightarrow>
            (\<exists>e. ManifestEntry_new (filtered_manifest_entry_data row) = Inr e \<and>
                 legacy_polyfills_entry (manifest client) = Some e)) \<and>
         (2 \<le> length (motif_matches (legacy_polyfills_motif config) items) \<longrightarrow>
            (\<exists>key row e. last (motif_matches (legacy_polyfills_motif config) items) = (key, RowObject row) \<and>
               ManifestEntry_new (filtered_manifest_entry_data row) = Inr e \<and>
               legacy_polyfills_entry (manifest client) = Some e)) \<and>
         (motif_matches (legacy_polyfills_motif config) items = [] \<longrightarrow>
            legacy_polyfills_entry (manifest client) = None \<and>
            (\<forall>w' kwargs. vite_is_serving w' (client_config client) = Inr False \<longrightarrow>
               generate_vite_legacy_polyfills w' client kwargs =
                 Inl (DjangoViteAssetNotFoundError
                        (''Vite legacy polyfills not found in manifest at '' @
                         location_str (client_manifest_path (manifest client))))))"
proof -
  let ?ms = "motif_matches (legacy_polyfills_motif config) items"
  from DjangoViteAppClient_init_Inr [OF assms(1)] have
    init: "ManifestClient_init w config name = Inr (manifest client)" by simp
  note legacy = legacy_entry_after_init [OF init assms(2) assms(3) assms(4)]
  have path: "clean_manifest_path w config = Inr (client_manifest_path (manifest client))"
    by (rule ManifestClient_init_path(1) [OF init])
  have one: "\<forall>key row. ?ms = [(key, RowObject row)] \<longrightarrow>
            (\<exists>e. ManifestEntry_new (filtered_manifest_entry_data row) = Inr e \<and>
                 legacy_polyfills_entry (manifest client) = Some e)"
  proof (intro allI impI)
    fix key row assume ms: "?ms = [(key, RowObject row)]"
    then have "?ms \<noteq> []" and "last ?ms = (key, RowObject row)" by simp_all
    with legacy show "\<exists>e. ManifestEntry_new (filtered_manifest_entry_data row) = Inr e \<and>
                 legacy_polyfills_entry (manifest client) = Some e"
      by auto
  qed
  have several: "2 \<le> length ?ms \<longrightarrow>
            (\<exists>key row e. last ?ms = (key, RowObject row) \<and>
               ManifestEntry_new (filtered_manifest_entry_data row) = Inr e \<and>
               legacy_polyfills_entry (manifest client) = Some e)"
  proof
    assume "2 \<le> length ?ms"
    then have "?ms \<noteq> []" by auto
    with legacy show "\<exists>key row e. last ?ms = (key, RowObject row) \<and>
               ManifestEntry_new (filtered_manifest_entry_data row) = Inr e \<and>
               legacy_polyfills_entry (manifest client) = Some e"
      by blast
  qed
  have none: "?ms = [] \<longrightarrow>
            legacy_polyfills_entry (manifest client) = None \<and>
            (\<forall>w' kwargs. vite_is_serving w' (client_config client) = Inr False \<longrightarrow>
               generate_vite_legacy_polyfills w' client kwargs =
                 Inl (DjangoViteAssetNotFoundError
                        (''Vite legacy polyfills not found in manifest at '' @
                         location_str (client_manifest_path (manifest client)))))"
  proof
    assume "?ms = []"
    with legacy have absent: "legacy_polyfills_entry (manifest client) = None" by simp
    then show "legacy_polyfills_entry (manifest client) = None \<and>
            (\<forall>w' kwargs. vite_is_serving w' (client_config client) = Inr False \<longrightarrow>
               generate_vite_legacy_polyfills w' client kwargs =
                 Inl (DjangoViteAssetNotFoundError
                        (''Vite legacy polyfills not found in manifest at '' @
                         location_str (client_manifest_path (manifest client)))))"
      by (simp add: generate_vite_legacy_polyfills_def)
  qed
  from path one several none show ?thesis by (intro conjI)
qed

text \<open>
  Claim C7, amended. When two or more keys of a parsed manifest contain the polyfills
  motif, the one entry kept as \<^verbatim>\<open>legacy_polyfills_entry\<close> is the entry of the last
  matching key in the key order of the document (the claim says the first).
\<close>

theorem legacy_polyfills_entry_is_last_match:
  assumes "ManifestClient_init w config name = Inr self"
    and "\<not> client_dev_mode self"
    and "load_manifest_json w (client_manifest_path self) = Inr (DocObject items)"
    and "parse_manifest w self = Inr parsed"
    and "2 \<le> length (motif_matches (legacy_polyfills_motif config) items)"
  shows "\<exists>key row e. last (motif_matches (legacy_polyfills_motif config) items) = (key, RowObject row) \<and>
           ManifestEntry_new (filtered_manifest_entry_data row) = Inr e \<and>
           legacy_polyfills_entry self = Some e"
proof -
  from assms(5) have "motif_matches (legacy_polyfills_motif config) items \<noteq> []" by auto
  with legacy_entry_after_init [OF assms(1-4)] show ?thesis by blast
qed

lemma file_row_entry:
  "ManifestEntry_new (filtered_manifest_entry_data (file_row f)) = Inr (file_entry f)"
  by (simp add: ManifestEntry_new_def filtered_manifest_entry_data_def file_row_def empty_row_def
        file_entry_def)

lemma polyfills_motif:
  "str_contains ''legacy-polyfills'' ''vite/legacy-polyfills-legacy''"
  "str_contains ''legacy-polyfills'' ''other/legacy-polyfills''"
  by simp_all

lemma polyfills_matches:
  "motif_matches ''legacy-polyfills'' polyfills_items =
     [(''vite/legacy-polyfills-legacy'', RowObject (file_row ''polyfills.1.js'')),
      (''other/legacy-polyfills'', RowObject (file_row ''polyfills.2.js''))]"
  by (simp add: motif_matches_def polyfills_items_def polyfills_motif example_no_motif)

lemma single_matches:
  "motif_matches ''legacy-polyfills'' single_polyfills_items =
     [(''vite/legacy-polyfills-legacy'', RowObject (file_row ''polyfills.1.js''))]"
  by (simp add: motif_matches_def single_polyfills_items_def polyfills_motif example_no_motif)

lemma example_matches: "motif_matches ''legacy-polyfills'' example_items = []"
  by (simp add: motif_matches_def example_items_def example_no_motif)

lemma polyfills_rows:
  "\<exists>es. parse_rows ''legacy-polyfills'' polyfills_items (Map.empty, None) =
          Inr (es, Some (file_entry ''polyfills.2.js''))"
  by (simp add: polyfills_items_def example_row_entries file_row_entry polyfills_motif example_no_motif)

lemma single_rows:
  "\<exists>es. parse_rows ''legacy-polyfills'' single_polyfills_items (Map.empty, None) =
          Inr (es, Some (file_entry ''polyfills.1.js''))"
  by (simp add: single_polyfills_items_def example_row_entries file_row_entry polyfills_motif
        example_no_motif)

lemma manifest_world_client:
  assumes "parse_rows ''legacy-polyfills'' items (Map.empty, None) = Inr (es, lpe)"
  shows "\<exists>client. DjangoViteAppClient_init (manifest_world items) DjangoViteConfig_default ''default'' =
                    Inr client \<and>
           \<not> client_dev_mode (manifest client) \<and>
           client_config client = DjangoViteConfig_default \<and>
           client_manifest_path (manifest client) = PathLoc ''/static/manifest.json'' \<and>
           load_manifest_json (manifest_world items) (client_manifest_path (manifest client)) =
             Inr (DocObject items) \<and>
           parse_manifest (manifest_world items) (manifest client) = Inr (es, lpe)"
  by (simp add: DjangoViteAppClient_init_def manifest_world_init [OF assms]
        manifest_world_parse [OF assms] manifest_world_path manifest_world_load)

lemma file_entry_differs: "file_entry ''polyfills.2.js'' \<noteq> file_entry ''polyfills.1.js''"
  by (simp add: file_entry_def)

text \<open>
  Three documents at the default location: one matching key, two matching keys, none.
\<close>

theorem legacy_polyfills_entry_detection_witness:
  "(\<exists>client parsed.
      DjangoViteAppClient_init (manifest_world single_polyfills_items) DjangoViteConfig_default ''default'' =
        Inr client \<and>
      \<not> client_dev_mode (manifest client) \<and>
      load_manifest_json (manifest_world single_polyfills_items) (client_manifest_path (manifest client)) =
        Inr (DocObject single_polyfills_items) \<and>
      parse_manifest (manifest_world single_polyfills_items) (manifest client) = Inr parsed \<and>
      motif_matches (legacy_polyfills_motif DjangoViteConfig_default) single_polyfills_items =
        [(''vite/legacy-polyfills-legacy'', RowObject (file_row ''polyfills.1.js''))] \<and>
      legacy_polyfills_entry (manifest client) = Some (file_entry ''polyfills.1.js'')) \<and>
   (\<exists>client parsed.
      DjangoViteAppClient_init (manifest_world polyfills_items) DjangoViteConfig_default ''default'' =
        Inr client \<and>
      \<not> client_dev_mode (manifest client) \<and>
      load_manifest_json (manifest_world polyfills_items) (client_manifest_path (manifest client)) =
        Inr (DocObject polyfills_items) \<and>
      parse_manifest (manifest_world polyfills_items) (manifest client) = Inr parsed \<and>
      2 \<le> length (motif_matches (legacy_polyfills_motif DjangoViteConfig_default) polyfills_items) \<and>
      last (motif_matches (legacy_polyfills_motif DjangoViteConfig_default) polyfills_items) =
        (''other/legacy-polyfills'', RowObject (file_row ''polyfills.2.js'')) \<and>
      legacy_polyfills_entry (manifest client) = Some (file_entry ''polyfills.2.js'')) \<and>
   (\<exists>client parsed.
      DjangoViteAppClient_init (manifest_world example_items) DjangoViteConfig_default ''default'' =
        Inr client \<and>
      \<not> client_dev_mode (manifest client) \<and>
      load_manifest_json (manifest_world example_items) (client_manifest_path (manifest client)) =
        Inr (DocObject example_items) \<and>
      parse_manifest (manifest_world example_items) (manifest client) = Inr parsed \<and>
      motif_matches (legacy_polyfills_motif DjangoViteConfig_default) example_items = [] \<and>
      vite_is_serving (manifest_world example_items) (client_config client) = Inr False \<and>
      legacy_polyfills_entry (manifest client) = None \<and>
      generate_vite_legacy_polyfills (manifest_world example_items) client [] =
        Inl (DjangoViteAssetNotFoundError
               ''Vite legacy polyfills not found in manifest at /static/manifest.json''))"
proof (intro conjI)
  let ?w = "manifest_world single_polyfills_items"
  from single_rows obtain es where
    "parse_rows ''legacy-polyfills'' single_polyfills_items (Map.empty, None) =
       Inr (es, Some (file_entry ''polyfills.1.js''))" by blast
  from manifest_world_client [OF this] obtain client where
    init: "DjangoViteAppClient_init ?w DjangoViteConfig_default ''default'' = Inr client" and
    prod: "\<not> client_dev_mode (manifest client)" and
    load: "load_manifest_json ?w (client_manifest_path (manifest client)) =
             Inr (DocObject single_polyfills_items)" and
    parse: "parse_manifest ?w (manifest client) = Inr (es, Some (file_entry ''polyfills.1.js''))"
    by blast
  have ms: "motif_matches (legacy_polyfills_motif DjangoViteConfig_default) single_polyfills_items =
        [(''vite/legacy-polyfills-legacy'', RowObject (file_row ''polyfills.1.js''))]"
    by (simp only: default_config_sel single_matches)
  from legacy_polyfills_entry_detection [OF init prod load parse] ms
  have "\<exists>e. ManifestEntry_new (filtered_manifest_entry_data (file_row ''polyfills.1.js'')) = Inr e \<and>
             legacy_polyfills_entry (manifest client) = Some e"
    by blast
  then have "legacy_polyfills_entry (manifest client) = Some (file_entry ''polyfills.1.js'')"
    by (simp add: file_row_entry)
  with init prod load parse ms
  show "\<exists>client parsed.
      DjangoViteAppClient_init ?w DjangoViteConfig_default ''default'' = Inr client \<and>
      \<not> client_dev_mode (manifest client) \<and>
      load_manifest_json ?w (client_manifest_path (manifest client)) =
        Inr (DocObject single_polyfills_items) \<and>
      parse_manifest ?w (manifest client) = Inr parsed \<and>
      motif_matches (legacy_polyfills_motif DjangoViteConfig_default) single_polyfills_items =
        [(''vite/legacy-polyfills-legacy'', RowObject (file_row ''polyfills.1.js''))] \<and>
      legacy_polyfills_entry (manifest client) = Some (file_entry ''polyfills.1.js'')"
    by blast
next
  let ?w = "manifest_world polyfills_items"
  from polyfills_rows obtain es where
    "parse_rows ''legacy-polyfills'' polyfills_items (Map.empty, None) =
       Inr (es, Some (file_entry ''polyfills.2.js''))" by blast
  from manifest_world_client [OF this] obtain client where
    init: "DjangoViteAppClient_init ?w DjangoViteConfig_default ''default'' = Inr client" and
    prod: "\<not> client_dev_mode (manifest client)" and
    load: "load_manifest_json ?w (client_manifest_path (manifest client)) =
             Inr (DocObject polyfills_items)" and
    parse: "parse_manifest ?w (manifest client) = Inr (es, Some (file_entry ''polyfills.2.js''))"
    by blast
  have two: "2 \<le> length (motif_matches (legacy_polyfills_motif DjangoViteConfig_default) polyfills_items)"
    and lst: "last (motif_matches (legacy_polyfills_motif DjangoViteConfig_default) polyfills_items) =
        (''other/legacy-polyfills'', RowObject (file_row ''polyfills.2.js''))"
    by (simp_all add: default_config_sel polyfills_matches)
  from legacy_polyfills_entry_detection [OF init prod load parse] two
  have "\<exists>key row e.
          last (motif_matches (legacy_polyfills_motif DjangoViteConfig_default) polyfills_items) =
            (key, RowObject row) \<and>
          ManifestEntry_new (filtered_manifest_entry_data row) = Inr e \<and>
          legacy_polyfills_entry (manifest client) = Some e"
    by blast
  then have "legacy_polyfills_entry (manifest client) = Some (file_entry ''polyfills.2.js'')"
    by (auto simp: lst file_row_entry)
  with init prod load parse two lst
  show "\<exists>client parsed.
      DjangoViteAppClient_init ?w DjangoViteConfig_default ''default'' = Inr client \<and>
      \<not> client_dev_mode (manifest client) \<and>
      load_manifest_json ?w (client_manifest_path (manifest client)) = Inr (DocObject polyfills_items) \<and>
      parse_manifest ?w (manifest client) = Inr parsed \<and>
      2 \<le> length (motif_matches (legacy_polyfills_motif DjangoViteConfig_default) polyfills_items) \<and>
      last (motif_matches (legacy_polyfills_motif DjangoViteConfig_default) polyfills_items) =
        (''other/legacy-polyfills'', RowObject (file_row ''polyfills.2.js'')) \<and>
      legacy_polyfills_entry (manifest client) = Some (file_entry ''polyfills.2.js'')"
    by blast
next
  let ?w = "manifest_world example_items"
  from manifest_world_client [OF example_rows] obtain client where
    init: "DjangoViteAppClient_init ?w DjangoViteConfig_default ''default'' = Inr client" and
    prod: "\<not> client_dev_mode (manifest client)" and
    cfg: "client_config client = DjangoViteConfig_default" and
    loc: "client_manifest_path (manifest client) = PathLoc ''/static/manifest.json''" and
    load: "load_manifest_json ?w (client_manifest_path (manifest client)) =
             Inr (DocObject example_items)" and
    parse: "parse_manifest ?w (manifest client) =
              Inr ([''main.js'' \<mapsto> main_entry, ''lib.js'' \<mapsto> lib_entry], None)"
    by blast
  have ms: "motif_matches (legacy_polyfills_motif DjangoViteConfig_default) example_items = []"
    by (simp only: default_config_sel example_matches)
  have ns: "vite_is_serving ?w (client_config client) = Inr False"
    by (simp only: cfg default_not_serving)
  from legacy_polyfills_entry_detection [OF init prod load parse] ms
  have absent: "legacy_polyfills_entry (manifest client) = None"
    and raise: "\<forall>w' kwargs. vite_is_serving w' (client_config client) = Inr False \<longrightarrow>
               generate_vite_legacy_polyfills w' client kwargs =
                 Inl (DjangoViteAssetNotFoundError
                        (''Vite legacy polyfills not found in manifest at '' @
                         location_str (client_manifest_path (manifest client))))"
    by blast+
  from raise ns have "generate_vite_legacy_polyfills ?w client [] =
                 Inl (DjangoViteAssetNotFoundError
                        (''Vite legacy polyfills not found in manifest at '' @
                         location_str (client_manifest_path (manifest client))))"
    by blast
  then have "generate_vite_legacy_polyfills ?w client [] =
        Inl (DjangoViteAssetNotFoundError
               ''Vite legacy polyfills not found in manifest at /static/manifest.json'')"
    by (simp add: loc)
  with init prod load parse ms ns absent
  show "\<exists>client parsed.
      DjangoViteAppClient_init ?w DjangoViteConfig_default ''default'' = Inr client \<and>
      \<not> client_dev_mode (manifest client) \<and>
      load_manifest_json ?w (client_manifest_path (manifest client)) = Inr (DocObject example_items) \<and>
      parse_manifest ?w (manifest client) = Inr parsed \<and>
      motif_matches (legacy_polyfills_motif DjangoViteConfig_default) example_items = [] \<and>
      vite_is_serving ?w (client_config client) = Inr False \<and>
      legacy_polyfills_entry (manifest client) = None \<and>
      generate_vite_legacy_polyfills ?w client [] =
        Inl (DjangoViteAssetNotFoundError
               ''Vite legacy polyfills not found in manifest at /static/manifest.json'')"
    by blast
qed

theorem legacy_polyfills_entry_is_last_match_witness:
  "\<exists>self parsed.
      ManifestClient_init (manifest_world polyfills_items) DjangoViteConfig_default ''default'' = Inr self \<and>
      \<not> client_dev_mode self \<and>
      load_manifest_json (manifest_world polyfills_items) (client_manifest_path self) =
        Inr (DocObject polyfills_items) \<and>
      parse_manifest (manifest_world polyfills_items) self = Inr parsed \<and>
      2 \<le> length (motif_matches (legacy_polyfills_motif DjangoViteConfig_default) polyfills_items) \<and>
      last (motif_matches (legacy_polyfills_motif DjangoViteConfig_default) polyfills_items) =
        (''other/legacy-polyfills'', RowObject (file_row ''polyfills.2.js'')) \<and>
      legacy_polyfills_entry self = Some (file_entry ''polyfills.2.js'')"
proof -
  let ?w = "manifest_world polyfills_items"
  from polyfills_rows obtain es where
    rows: "parse_rows ''legacy-polyfills'' polyfills_items (Map.empty, None) =
       Inr (es, Some (file_entry ''polyfills.2.js''))" by blast
  define self where
    "self = (unparsed_client DjangoViteConfig_default ''default'' False
               (PathLoc ''/static/manifest.json''))
              \<lparr> entries := es, legacy_polyfills_entry := Some (file_entry ''polyfills.2.js'') \<rparr>"
  have init: "ManifestClient_init ?w DjangoViteConfig_default ''default'' = Inr self"
    unfolding self_def by (rule manifest_world_init [OF rows])
  have prod: "\<not> client_dev_mode self"
    and load: "load_manifest_json ?w (client_manifest_path self) = Inr (DocObject polyfills_items)"
    by (simp_all add: self_def manifest_world_load)
  have parse: "parse_manifest ?w self = Inr (es, Some (file_entry ''polyfills.2.js''))"
    unfolding self_def by (rule manifest_world_parse [OF rows])
  have two: "2 \<le> length (motif_matches (legacy_polyfills_motif DjangoViteConfig_default) polyfills_items)"
    and lst: "last (motif_matches (legacy_polyfills_motif DjangoViteConfig_default) polyfills_items) =
        (''other/legacy-polyfills'', RowObject (file_row ''polyfills.2.js''))"
    by (simp_all add: default_config_sel polyfills_matches)
  from legacy_polyfills_entry_is_last_match [OF init prod load parse two]
  have "legacy_polyfills_entry self = Some (file_entry ''polyfills.2.js'')"
    by (auto simp: lst file_row_entry)
  with init prod load parse two lst show ?thesis by blast
qed

text \<open>
  The claim as first stated fails on the document with two matching keys: the entry kept
  is that of \<^verbatim>\<open>other/legacy-polyfills\<close>, the last of the two, not that of the first.
\<close>

theorem legacy_polyfills_first_match_counterexample:
  "\<exists>self parsed.
      ManifestClient_init (manifest_world polyfills_items) DjangoViteConfig_default ''default'' = Inr self \<and>
      parse_manifest (manifest_world polyfills_items) self = Inr parsed \<and>
      motif_matches (legacy_polyfills_motif DjangoViteConfig_default) polyfills_items =
        [(''vite/legacy-polyfills-legacy'', RowObject (file_row ''polyfills.1.js'')),
         (''other/legacy-polyfills'', RowObject (file_row ''polyfills.2.js''))] \<and>
      ManifestEntry_new (filtered_manifest_entry_data (file_row ''polyfills.1.js'')) =
        Inr (file_entry ''polyfills.1.js'') \<and>
      legacy_polyfills_entry self = Some (file_entry ''polyfills.2.js'') \<and>
      legacy_polyfills_entry self \<noteq> Some (file_entry ''polyfills.1.js'')"
proof -
  let ?w = "manifest_world polyfills_items"
  from polyfills_rows obtain es where
    rows: "parse_rows ''legacy-polyfills'' polyfills_items (Map.empty, None) =
       Inr (es, Some (file_entry ''polyfills.2.js''))" by blast
  define self where
    "self = (unparsed_client DjangoViteConfig_default ''default'' False
               (PathLoc ''/static/manifest.json''))
              \<lparr> entries := es, legacy_polyfills_entry := Some (file_entry ''polyfills.2.js'') \<rparr>"
  have init: "ManifestClient_init ?w DjangoViteConfig_default ''default'' = Inr self"
    unfolding self_def by (rule manifest_world_init [OF rows])
  have parse: "parse_manifest ?w self = Inr (es, Some (file_entry ''polyfills.2.js''))"
    unfolding self_def by (rule manifest_world_parse [OF rows])
  have ms: "motif_matches (legacy_polyfills_motif DjangoViteConfig_default) polyfills_items =
        [(''vite/legacy-polyfills-legacy'', RowObject (file_row ''polyfills.1.js'')),
         (''other/legacy-polyfills'', RowObject (file_row ''polyfills.2.js''))]"
    by (simp only: default_config_sel polyfills_matches)
  have kept: "legacy_polyfills_entry self = Some (file_entry ''polyfills.2.js'')"
    by (simp add: self_def)
  then have other: "legacy_polyfills_entry self \<noteq> Some (file_entry ''polyfills.1.js'')"
    by (simp add: file_entry_differs)
  from init parse ms file_row_entry [of "''polyfills.1.js''"] kept other show ?thesis by blast
qed

section \<open>Claims about the registry\<close>























end
